theory Spec2Isabelle
  imports Main "HOL-Library.Sublist"
begin

section \<open>Royal Tailors: the database schema and the admin list screens\<close>

text \<open>
  The development follows the two halves of the repository.  The first half is the SQL
  script that creates the four tables \<open>customers\<close>, \<open>fabrics\<close>, \<open>garments\<close> and \<open>orders\<close>,
  their constraints, the two trigger functions and the row-level-security policies.  The
  second half is the client code of the list screens (\<open>filterFabrics\<close>, \<open>filterGarments\<close>,
  \<open>toggleFeatured\<close>).

  Every statement of the script is modelled on its own, with the meaning PostgreSQL gives
  it; the script is not modelled as one transaction.  A column is an \<open>option\<close> (\<open>None\<close> is
  SQL \<open>NULL\<close>), \<open>NOT NULL\<close> is a constraint checked by the write path, as are \<open>CHECK\<close>,
  \<open>UNIQUE\<close>, \<open>PRIMARY KEY\<close> and \<open>REFERENCES\<close>.  A write returns \<open>Inl\<close> of the violated
  constraint, or \<open>Inr\<close> of the new database; a rejected write leaves the database as it
  was.  The two values the script takes from the environment, \<open>now()\<close> and
  \<open>uuid_generate_v4()\<close>, are parameters of every write.
\<close>

subsection \<open>Column types\<close>

text \<open>
  \<open>uuid\<close> is a number (of 128 bits; the bound plays no part here).  \<open>timestamptz\<close> has
  microsecond resolution and is kept as the count of microseconds since
  1970-01-01 00:00:00 UTC, negative before it.  \<open>numeric\<close> is a decimal: an unscaled
  integer and a display scale, the value being \<open>unscaled / 10 ^ dscale\<close>.  \<open>jsonb\<close>
  values are kept as their text; \<open>date\<close> is a day number.
\<close>

type_synonym uuid = nat
type_synonym timestamptz = int
type_synonym jsonb = string
type_synonym date = int

datatype numeric = Numeric (unscaled: int) (dscale: nat)

subsection \<open>The built-in functions the trigger uses\<close>

definition digit_char :: "nat \<Rightarrow> char" where
  "digit_char d = ''0123456789'' ! d"

function nat_text :: "nat \<Rightarrow> string" where
  "nat_text n = (if n < 10 then [digit_char n] else nat_text (n div 10) @ [digit_char (n mod 10)])"
  by pat_completeness auto
termination
  by (relation "measure (\<lambda>n. n)") auto

declare nat_text.simps [simp del]

text \<open>
  \<open>lpad(string, length, fill)\<close>: the string is extended to \<open>length\<close> characters by
  prepending copies of \<open>fill\<close>; a string that is already longer is truncated on the right;
  an empty \<open>fill\<close> pads nothing.
\<close>

definition lpad :: "string \<Rightarrow> int \<Rightarrow> string \<Rightarrow> string" where
  "lpad s len fill =
     (let n = nat len in
      if n \<le> length s then take n s
      else if fill = [] then s
      else take (n - length s) (concat (replicate (n - length s) fill)) @ s)"

text \<open>
  \<open>x::text\<close> for a \<open>numeric\<close>: the sign, the integer part, and, when the display scale is
  not zero, a point and exactly \<open>dscale\<close> fraction digits.
\<close>

definition numeric_text :: "numeric \<Rightarrow> string" where
  "numeric_text x =
     (let u = nat \<bar>unscaled x\<bar>; s = dscale x in
      (if unscaled x < 0 then ''-'' else '''') @ nat_text (u div 10 ^ s) @
      (if s = 0 then '''' else ''.'' @ lpad (nat_text (u mod 10 ^ s)) (int s) ''0''))"

text \<open>
  \<open>EXTRACT(epoch FROM ts)\<close> for a \<open>timestamptz\<close>: the seconds since the epoch as a
  \<open>numeric\<close> with six fraction digits (the microseconds).
\<close>

definition extract_epoch :: "timestamptz \<Rightarrow> numeric" where
  "extract_epoch ts = Numeric ts 6"

subsection \<open>Rows\<close>

text \<open>
  The three columns every table has are the base record; each table extends it with its
  own columns, named \<open>table_column\<close>.  (\<open>row_id\<close> is the column \<open>id\<close>.)
\<close>

record row =
  row_id :: "uuid option"
  created_at :: "timestamptz option"
  updated_at :: "timestamptz option"

record customers_row = row +
  customers_name :: "string option"
  customers_phone :: "string option"
  customers_email :: "string option"
  customers_measurements_json :: "jsonb option"

record fabrics_row = row +
  fabrics_name :: "string option"
  fabrics_material :: "string option"
  fabrics_price_per_meter :: "numeric option"
  fabrics_color :: "string option"
  fabrics_stock :: "int option"
  fabrics_images_json :: "jsonb option"
  fabrics_featured :: "bool option"
  fabrics_description :: "string option"

record garments_row = row +
  garments_name :: "string option"
  garments_category :: "string option"
  garments_base_price :: "numeric option"
  garments_description :: "string option"
  garments_image_url :: "string option"
  garments_customization_options :: "jsonb option"

record orders_row = row +
  orders_customer_id :: "uuid option"
  orders_fabric_id :: "uuid option"
  orders_garment_id :: "uuid option"
  orders_tracking_id :: "string option"
  orders_customizations_json :: "jsonb option"
  orders_measurements_json :: "jsonb option"
  orders_price :: "numeric option"
  orders_status :: "string option"
  orders_urgent :: "bool option"
  orders_special_instructions :: "string option"
  orders_estimated_completion :: "date option"

record db =
  all_customers :: "customers_row list"
  all_fabrics :: "fabrics_row list"
  all_garments :: "garments_row list"
  all_orders :: "orders_row list"

definition empty_db :: db where
  "empty_db = \<lparr>all_customers = [], all_fabrics = [], all_garments = [], all_orders = []\<rparr>"

subsection \<open>The trigger functions\<close>

text \<open>
  \<open>update_updated_at_column\<close> is one function used by the four \<open>BEFORE UPDATE\<close> triggers;
  \<open>set_tracking_id\<close> is the \<open>BEFORE INSERT\<close> trigger of \<open>orders\<close>.
\<close>

definition update_updated_at_column :: "timestamptz \<Rightarrow> 'a row_scheme \<Rightarrow> 'a row_scheme" where
  "update_updated_at_column now NEW = NEW\<lparr>updated_at := Some now\<rparr>"

definition set_tracking_id :: "timestamptz \<Rightarrow> orders_row \<Rightarrow> orders_row" where
  "set_tracking_id now NEW =
     (if orders_tracking_id NEW = None \<or> orders_tracking_id NEW = Some ''''
      then NEW\<lparr>orders_tracking_id :=
                 Some (''RT'' @ lpad (numeric_text (extract_epoch now)) 10 ''0'')\<rparr>
      else NEW)"

subsection \<open>Write failures\<close>

datatype error =
    not_null_violation string
  | check_violation string
  | unique_violation string
  | foreign_key_violation string

text \<open>
  The constraints of a write are checked in order; the first one violated is the error
  reported.
\<close>

fun first_violation :: "(bool \<times> error) list \<Rightarrow> error option" where
  "first_violation [] = None"
| "first_violation ((violated, e) # cs) = (if violated then Some e else first_violation cs)"

text \<open>
  SQL's \<open>x IN (v1, ..., vn)\<close> is \<open>NULL\<close> when \<open>x\<close> is \<open>NULL\<close>; a \<open>CHECK\<close> constraint is
  violated only when its expression is false, so it is satisfied by \<open>NULL\<close>.
\<close>

definition sql_in :: "'a option \<Rightarrow> 'a list \<Rightarrow> bool option" where
  "sql_in x vs = (case x of None \<Rightarrow> None | Some v \<Rightarrow> Some (v \<in> set vs))"

definition check_satisfied :: "bool option \<Rightarrow> bool" where
  "check_satisfied b = (b \<noteq> Some False)"

definition order_statuses :: "string list" where
  "order_statuses =
     [''confirmed'', ''fabric_ready'', ''cutting'', ''stitching'', ''embroidery'',
      ''quality_check'', ''ready'', ''completed'']"

definition orders_status_check :: "orders_row \<Rightarrow> bool" where
  "orders_status_check r = check_satisfied (sql_in (orders_status r) order_statuses)"

text \<open>
  A foreign key is violated when the referencing column is not \<open>NULL\<close> and no row of the
  referenced table has that \<open>id\<close>.
\<close>

definition fk_violated :: "uuid option \<Rightarrow> 'a row_scheme list \<Rightarrow> bool" where
  "fk_violated k rows = (case k of None \<Rightarrow> False | Some u \<Rightarrow> Some u \<notin> set (map row_id rows))"

definition has_id :: "uuid \<Rightarrow> 'a row_scheme \<Rightarrow> bool" where
  "has_id u r = (row_id r = Some u)"

subsection \<open>INSERT\<close>

text \<open>
  A column of an \<open>INSERT\<close> is either left to its default (\<open>DEFAULT\<close>: the column is
  omitted) or given a value, which may be \<open>NULL\<close> (\<open>Value None\<close>).
\<close>

datatype 'a arg = DEFAULT | Value "'a option"

definition column_value :: "'a option \<Rightarrow> 'a arg \<Rightarrow> 'a option" where
  "column_value dflt a = (case a of DEFAULT \<Rightarrow> dflt | Value v \<Rightarrow> v)"

record insert_row =
  id_arg :: "uuid arg"
  created_at_arg :: "timestamptz arg"
  updated_at_arg :: "timestamptz arg"

record customers_insert = insert_row +
  customers_name_arg :: "string arg"
  customers_phone_arg :: "string arg"
  customers_email_arg :: "string arg"
  customers_measurements_json_arg :: "jsonb arg"

record fabrics_insert = insert_row +
  fabrics_name_arg :: "string arg"
  fabrics_material_arg :: "string arg"
  fabrics_price_per_meter_arg :: "numeric arg"
  fabrics_color_arg :: "string arg"
  fabrics_stock_arg :: "int arg"
  fabrics_images_json_arg :: "jsonb arg"
  fabrics_featured_arg :: "bool arg"
  fabrics_description_arg :: "string arg"

record garments_insert = insert_row +
  garments_name_arg :: "string arg"
  garments_category_arg :: "string arg"
  garments_base_price_arg :: "numeric arg"
  garments_description_arg :: "string arg"
  garments_image_url_arg :: "string arg"
  garments_customization_options_arg :: "jsonb arg"

record orders_insert = insert_row +
  orders_customer_id_arg :: "uuid arg"
  orders_fabric_id_arg :: "uuid arg"
  orders_garment_id_arg :: "uuid arg"
  orders_tracking_id_arg :: "string arg"
  orders_customizations_json_arg :: "jsonb arg"
  orders_measurements_json_arg :: "jsonb arg"
  orders_price_arg :: "numeric arg"
  orders_status_arg :: "string arg"
  orders_urgent_arg :: "bool arg"
  orders_special_instructions_arg :: "string arg"
  orders_estimated_completion_arg :: "date arg"

text \<open>The row an \<open>INSERT\<close> proposes: each column's \<open>DEFAULT\<close> clause fills what is omitted.\<close>

definition customers_defaults :: "timestamptz \<Rightarrow> uuid \<Rightarrow> customers_insert \<Rightarrow> customers_row" where
  "customers_defaults now uuid_generate_v4 ins =
     \<lparr>row_id = column_value (Some uuid_generate_v4) (id_arg ins),
      created_at = column_value (Some now) (created_at_arg ins),
      updated_at = column_value (Some now) (updated_at_arg ins),
      customers_name = column_value None (customers_name_arg ins),
      customers_phone = column_value None (customers_phone_arg ins),
      customers_email = column_value None (customers_email_arg ins),
      customers_measurements_json = column_value (Some ''{}'') (customers_measurements_json_arg ins)\<rparr>"

definition fabrics_defaults :: "timestamptz \<Rightarrow> uuid \<Rightarrow> fabrics_insert \<Rightarrow> fabrics_row" where
  "fabrics_defaults now uuid_generate_v4 ins =
     \<lparr>row_id = column_value (Some uuid_generate_v4) (id_arg ins),
      created_at = column_value (Some now) (created_at_arg ins),
      updated_at = column_value (Some now) (updated_at_arg ins),
      fabrics_name = column_value None (fabrics_name_arg ins),
      fabrics_material = column_value None (fabrics_material_arg ins),
      fabrics_price_per_meter = column_value (Some (Numeric 0 0)) (fabrics_price_per_meter_arg ins),
      fabrics_color = column_value None (fabrics_color_arg ins),
      fabrics_stock = column_value (Some 0) (fabrics_stock_arg ins),
      fabrics_images_json = column_value (Some ''[]'') (fabrics_images_json_arg ins),
      fabrics_featured = column_value (Some False) (fabrics_featured_arg ins),
      fabrics_description = column_value None (fabrics_description_arg ins)\<rparr>"

definition garments_defaults :: "timestamptz \<Rightarrow> uuid \<Rightarrow> garments_insert \<Rightarrow> garments_row" where
  "garments_defaults now uuid_generate_v4 ins =
     \<lparr>row_id = column_value (Some uuid_generate_v4) (id_arg ins),
      created_at = column_value (Some now) (created_at_arg ins),
      updated_at = column_value (Some now) (updated_at_arg ins),
      garments_name = column_value None (garments_name_arg ins),
      garments_category = column_value None (garments_category_arg ins),
      garments_base_price = column_value (Some (Numeric 0 0)) (garments_base_price_arg ins),
      garments_description = column_value None (garments_description_arg ins),
      garments_image_url = column_value None (garments_image_url_arg ins),
      garments_customization_options =
        column_value (Some ''{}'') (garments_customization_options_arg ins)\<rparr>"

definition orders_defaults :: "timestamptz \<Rightarrow> uuid \<Rightarrow> orders_insert \<Rightarrow> orders_row" where
  "orders_defaults now uuid_generate_v4 ins =
     \<lparr>row_id = column_value (Some uuid_generate_v4) (id_arg ins),
      created_at = column_value (Some now) (created_at_arg ins),
      updated_at = column_value (Some now) (updated_at_arg ins),
      orders_customer_id = column_value None (orders_customer_id_arg ins),
      orders_fabric_id = column_value None (orders_fabric_id_arg ins),
      orders_garment_id = column_value None (orders_garment_id_arg ins),
      orders_tracking_id = column_value None (orders_tracking_id_arg ins),
      orders_customizations_json = column_value (Some ''{}'') (orders_customizations_json_arg ins),
      orders_measurements_json = column_value (Some ''{}'') (orders_measurements_json_arg ins),
      orders_price = column_value (Some (Numeric 0 0)) (orders_price_arg ins),
      orders_status = column_value (Some ''confirmed'') (orders_status_arg ins),
      orders_urgent = column_value (Some False) (orders_urgent_arg ins),
      orders_special_instructions = column_value None (orders_special_instructions_arg ins),
      orders_estimated_completion = column_value None (orders_estimated_completion_arg ins)\<rparr>"

text \<open>
  The constraints of each table, in the order PostgreSQL checks them for one row: the
  \<open>NOT NULL\<close> columns, the \<open>CHECK\<close>, the unique indexes against the other rows of the
  table, and last the foreign keys.
\<close>

definition customers_violation :: "customers_row list \<Rightarrow> customers_row \<Rightarrow> error option" where
  "customers_violation others NEW = first_violation
     [(row_id NEW = None, not_null_violation ''id''),
      (customers_name NEW = None, not_null_violation ''name''),
      (customers_phone NEW = None, not_null_violation ''phone''),
      (customers_email NEW = None, not_null_violation ''email''),
      (row_id NEW \<in> set (map row_id others), unique_violation ''customers_pkey'')]"

definition fabrics_violation :: "fabrics_row list \<Rightarrow> fabrics_row \<Rightarrow> error option" where
  "fabrics_violation others NEW = first_violation
     [(row_id NEW = None, not_null_violation ''id''),
      (fabrics_name NEW = None, not_null_violation ''name''),
      (fabrics_material NEW = None, not_null_violation ''material''),
      (fabrics_price_per_meter NEW = None, not_null_violation ''price_per_meter''),
      (fabrics_color NEW = None, not_null_violation ''color''),
      (fabrics_stock NEW = None, not_null_violation ''stock''),
      (row_id NEW \<in> set (map row_id others), unique_violation ''fabrics_pkey'')]"

definition garments_violation :: "garments_row list \<Rightarrow> garments_row \<Rightarrow> error option" where
  "garments_violation others NEW = first_violation
     [(row_id NEW = None, not_null_violation ''id''),
      (garments_name NEW = None, not_null_violation ''name''),
      (garments_category NEW = None, not_null_violation ''category''),
      (garments_base_price NEW = None, not_null_violation ''base_price''),
      (row_id NEW \<in> set (map row_id others), unique_violation ''garments_pkey'')]"

definition orders_violation :: "orders_row list \<Rightarrow> orders_row \<Rightarrow> error option" where
  "orders_violation others NEW = first_violation
     [(row_id NEW = None, not_null_violation ''id''),
      (orders_tracking_id NEW = None, not_null_violation ''tracking_id''),
      (orders_price NEW = None, not_null_violation ''price''),
      (\<not> orders_status_check NEW, check_violation ''orders_status_check''),
      (row_id NEW \<in> set (map row_id others), unique_violation ''orders_pkey''),
      (orders_tracking_id NEW \<in> set (map orders_tracking_id others),
         unique_violation ''orders_tracking_id_key'')]"

text \<open>
  The three foreign keys of \<open>orders\<close>.  On an \<open>INSERT\<close> every key is checked; on an
  \<open>UPDATE\<close> only a key whose value changed (\<open>changed\<close> says which).
\<close>

definition orders_fk_violation :: "db \<Rightarrow> bool \<times> bool \<times> bool \<Rightarrow> orders_row \<Rightarrow> error option" where
  "orders_fk_violation d changed NEW = first_violation
     [(fst changed \<and> fk_violated (orders_customer_id NEW) (all_customers d),
         foreign_key_violation ''orders_customer_id_fkey''),
      (fst (snd changed) \<and> fk_violated (orders_fabric_id NEW) (all_fabrics d),
         foreign_key_violation ''orders_fabric_id_fkey''),
      (snd (snd changed) \<and> fk_violated (orders_garment_id NEW) (all_garments d),
         foreign_key_violation ''orders_garment_id_fkey'')]"

definition insert_customers :: "timestamptz \<Rightarrow> uuid \<Rightarrow> customers_insert \<Rightarrow> db \<Rightarrow> error + db" where
  "insert_customers now uuid_generate_v4 ins d =
     (let NEW = customers_defaults now uuid_generate_v4 ins in
      case customers_violation (all_customers d) NEW of
        Some e \<Rightarrow> Inl e
      | None \<Rightarrow> Inr (d\<lparr>all_customers := all_customers d @ [NEW]\<rparr>))"

definition insert_fabrics :: "timestamptz \<Rightarrow> uuid \<Rightarrow> fabrics_insert \<Rightarrow> db \<Rightarrow> error + db" where
  "insert_fabrics now uuid_generate_v4 ins d =
     (let NEW = fabrics_defaults now uuid_generate_v4 ins in
      case fabrics_violation (all_fabrics d) NEW of
        Some e \<Rightarrow> Inl e
      | None \<Rightarrow> Inr (d\<lparr>all_fabrics := all_fabrics d @ [NEW]\<rparr>))"

definition insert_garments :: "timestamptz \<Rightarrow> uuid \<Rightarrow> garments_insert \<Rightarrow> db \<Rightarrow> error + db" where
  "insert_garments now uuid_generate_v4 ins d =
     (let NEW = garments_defaults now uuid_generate_v4 ins in
      case garments_violation (all_garments d) NEW of
        Some e \<Rightarrow> Inl e
      | None \<Rightarrow> Inr (d\<lparr>all_garments := all_garments d @ [NEW]\<rparr>))"

text \<open>
  \<open>orders\<close> has the \<open>BEFORE INSERT\<close> trigger: \<open>set_tracking_id\<close> runs on the proposed row
  before any constraint is checked.
\<close>

definition insert_orders :: "timestamptz \<Rightarrow> uuid \<Rightarrow> orders_insert \<Rightarrow> db \<Rightarrow> error + db" where
  "insert_orders now uuid_generate_v4 ins d =
     (let NEW = set_tracking_id now (orders_defaults now uuid_generate_v4 ins) in
      case orders_violation (all_orders d) NEW of
        Some e \<Rightarrow> Inl e
      | None \<Rightarrow>
          (case orders_fk_violation d (True, True, True) NEW of
             Some e \<Rightarrow> Inl e
           | None \<Rightarrow> Inr (d\<lparr>all_orders := all_orders d @ [NEW]\<rparr>)))"

subsection \<open>UPDATE\<close>

text \<open>
  \<open>UPDATE t SET ... WHERE id = u\<close>.  The \<open>SET\<close> clause is any function from the old row to
  the proposed row, so the caller may assign any column, \<open>updated_at\<close> included.  \<open>id\<close> is
  the primary key, so at most one row matches; when none does the statement succeeds and
  changes nothing.  The \<open>BEFORE UPDATE\<close> trigger runs on the proposed row, then the
  constraints are checked against the other rows.  A key that other rows reference cannot
  be changed (\<open>ON UPDATE\<close> is left at its default, \<open>NO ACTION\<close>).
\<close>

definition update_customers ::
    "timestamptz \<Rightarrow> uuid \<Rightarrow> (customers_row \<Rightarrow> customers_row) \<Rightarrow> db \<Rightarrow> error + db" where
  "update_customers now u set_clause d =
     (case find (has_id u) (all_customers d) of
        None \<Rightarrow> Inr d
      | Some OLD \<Rightarrow>
          (let NEW = update_updated_at_column now (set_clause OLD) in
           case customers_violation (filter (\<lambda>r. \<not> has_id u r) (all_customers d)) NEW of
             Some e \<Rightarrow> Inl e
           | None \<Rightarrow>
               if row_id NEW \<noteq> row_id OLD \<and> Some u \<in> set (map orders_customer_id (all_orders d))
               then Inl (foreign_key_violation ''orders_customer_id_fkey'')
               else Inr (d\<lparr>all_customers := map (\<lambda>r. if has_id u r then NEW else r) (all_customers d)\<rparr>)))"

definition update_fabrics ::
    "timestamptz \<Rightarrow> uuid \<Rightarrow> (fabrics_row \<Rightarrow> fabrics_row) \<Rightarrow> db \<Rightarrow> error + db" where
  "update_fabrics now u set_clause d =
     (case find (has_id u) (all_fabrics d) of
        None \<Rightarrow> Inr d
      | Some OLD \<Rightarrow>
          (let NEW = update_updated_at_column now (set_clause OLD) in
           case fabrics_violation (filter (\<lambda>r. \<not> has_id u r) (all_fabrics d)) NEW of
             Some e \<Rightarrow> Inl e
           | None \<Rightarrow>
               if row_id NEW \<noteq> row_id OLD \<and> Some u \<in> set (map orders_fabric_id (all_orders d))
               then Inl (foreign_key_violation ''orders_fabric_id_fkey'')
               else Inr (d\<lparr>all_fabrics := map (\<lambda>r. if has_id u r then NEW else r) (all_fabrics d)\<rparr>)))"

definition update_garments ::
    "timestamptz \<Rightarrow> uuid \<Rightarrow> (garments_row \<Rightarrow> garments_row) \<Rightarrow> db \<Rightarrow> error + db" where
  "update_garments now u set_clause d =
     (case find (has_id u) (all_garments d) of
        None \<Rightarrow> Inr d
      | Some OLD \<Rightarrow>
          (let NEW = update_updated_at_column now (set_clause OLD) in
           case garments_violation (filter (\<lambda>r. \<not> has_id u r) (all_garments d)) NEW of
             Some e \<Rightarrow> Inl e
           | None \<Rightarrow>
               if row_id NEW \<noteq> row_id OLD \<and> Some u \<in> set (map orders_garment_id (all_orders d))
               then Inl (foreign_key_violation ''orders_garment_id_fkey'')
               else Inr (d\<lparr>all_garments := map (\<lambda>r. if has_id u r then NEW else r) (all_garments d)\<rparr>)))"

definition update_orders ::
    "timestamptz \<Rightarrow> uuid \<Rightarrow> (orders_row \<Rightarrow> orders_row) \<Rightarrow> db \<Rightarrow> error + db" where
  "update_orders now u set_clause d =
     (case find (has_id u) (all_orders d) of
        None \<Rightarrow> Inr d
      | Some OLD \<Rightarrow>
          (let NEW = update_updated_at_column now (set_clause OLD) in
           case orders_violation (filter (\<lambda>r. \<not> has_id u r) (all_orders d)) NEW of
             Some e \<Rightarrow> Inl e
           | None \<Rightarrow>
               (case orders_fk_violation d
                       (orders_customer_id NEW \<noteq> orders_customer_id OLD,
                        orders_fabric_id NEW \<noteq> orders_fabric_id OLD,
                        orders_garment_id NEW \<noteq> orders_garment_id OLD) NEW of
                  Some e \<Rightarrow> Inl e
                | None \<Rightarrow>
                    Inr (d\<lparr>all_orders := map (\<lambda>r. if has_id u r then NEW else r) (all_orders d)\<rparr>))))"

subsection \<open>DELETE\<close>

text \<open>
  \<open>DELETE FROM t WHERE id = u\<close>.  \<open>orders.customer_id\<close> is declared \<open>ON DELETE CASCADE\<close>:
  deleting a customer deletes the orders that reference it.  \<open>orders.fabric_id\<close> and
  \<open>orders.garment_id\<close> are declared with \<open>REFERENCES\<close> alone, which is \<open>ON DELETE NO ACTION\<close>:
  deleting a fabric or a garment that an order references is a foreign-key violation.
\<close>

definition delete_customers :: "uuid \<Rightarrow> db \<Rightarrow> error + db" where
  "delete_customers u d =
     (if list_ex (has_id u) (all_customers d)
      then Inr (d\<lparr>all_customers := filter (\<lambda>r. \<not> has_id u r) (all_customers d),
                  all_orders := filter (\<lambda>r. orders_customer_id r \<noteq> Some u) (all_orders d)\<rparr>)
      else Inr d)"

definition delete_fabrics :: "uuid \<Rightarrow> db \<Rightarrow> error + db" where
  "delete_fabrics u d =
     (if list_ex (has_id u) (all_fabrics d) \<and> Some u \<in> set (map orders_fabric_id (all_orders d))
      then Inl (foreign_key_violation ''orders_fabric_id_fkey'')
      else Inr (d\<lparr>all_fabrics := filter (\<lambda>r. \<not> has_id u r) (all_fabrics d)\<rparr>))"

definition delete_garments :: "uuid \<Rightarrow> db \<Rightarrow> error + db" where
  "delete_garments u d =
     (if list_ex (has_id u) (all_garments d) \<and> Some u \<in> set (map orders_garment_id (all_orders d))
      then Inl (foreign_key_violation ''orders_garment_id_fkey'')
      else Inr (d\<lparr>all_garments := filter (\<lambda>r. \<not> has_id u r) (all_garments d)\<rparr>))"

definition delete_orders :: "uuid \<Rightarrow> db \<Rightarrow> error + db" where
  "delete_orders u d = Inr (d\<lparr>all_orders := filter (\<lambda>r. \<not> has_id u r) (all_orders d)\<rparr>)"

subsection \<open>Statements and reachable databases\<close>

datatype statement =
    InsertCustomers customers_insert
  | InsertFabrics fabrics_insert
  | InsertGarments garments_insert
  | InsertOrders orders_insert
  | UpdateCustomers uuid "customers_row \<Rightarrow> customers_row"
  | UpdateFabrics uuid "fabrics_row \<Rightarrow> fabrics_row"
  | UpdateGarments uuid "garments_row \<Rightarrow> garments_row"
  | UpdateOrders uuid "orders_row \<Rightarrow> orders_row"
  | DeleteCustomers uuid
  | DeleteFabrics uuid
  | DeleteGarments uuid
  | DeleteOrders uuid

fun execute :: "timestamptz \<Rightarrow> uuid \<Rightarrow> statement \<Rightarrow> db \<Rightarrow> error + db" where
  "execute now g (InsertCustomers ins) d = insert_customers now g ins d"
| "execute now g (InsertFabrics ins) d = insert_fabrics now g ins d"
| "execute now g (InsertGarments ins) d = insert_garments now g ins d"
| "execute now g (InsertOrders ins) d = insert_orders now g ins d"
| "execute now g (UpdateCustomers u f) d = update_customers now u f d"
| "execute now g (UpdateFabrics u f) d = update_fabrics now u f d"
| "execute now g (UpdateGarments u f) d = update_garments now u f d"
| "execute now g (UpdateOrders u f) d = update_orders now u f d"
| "execute now g (DeleteCustomers u) d = delete_customers u d"
| "execute now g (DeleteFabrics u) d = delete_fabrics u d"
| "execute now g (DeleteGarments u) d = delete_garments u d"
| "execute now g (DeleteOrders u) d = delete_orders u d"

text \<open>
  A database is reachable when it results from the empty tables by successful
  statements, each run at some time and with some generated identifier.
\<close>

inductive reachable :: "db \<Rightarrow> bool" where
  reachable_empty: "reachable empty_db"
| reachable_step: "reachable d \<Longrightarrow> execute now g stmt d = Inr d' \<Longrightarrow> reachable d'"

text \<open>A script is a list of statements, each with its time and generated identifier; it stops
  at the first statement that fails.\<close>

fun run :: "(timestamptz \<times> uuid \<times> statement) list \<Rightarrow> db \<Rightarrow> error + db" where
  "run [] d = Inr d"
| "run ((now, g, stmt) # rest) d =
     (case execute now g stmt d of Inl e \<Rightarrow> Inl e | Inr d' \<Rightarrow> run rest d')"

text \<open>What a result stores, column by column, for stating what a script leaves behind.\<close>

definition stored_tracking_ids :: "error + db \<Rightarrow> error + string option list" where
  "stored_tracking_ids res = map_sum id (\<lambda>d. map orders_tracking_id (all_orders d)) res"

definition stored_statuses :: "error + db \<Rightarrow> error + string option list" where
  "stored_statuses res = map_sum id (\<lambda>d. map orders_status (all_orders d)) res"

definition stored_fabrics_updated_at :: "error + db \<Rightarrow> error + timestamptz option list" where
  "stored_fabrics_updated_at res = map_sum id (\<lambda>d. map updated_at (all_fabrics d)) res"

text \<open>\<open>INSERT INTO orders DEFAULT VALUES\<close>: no column is supplied.\<close>

definition orders_default_values :: orders_insert where
  "orders_default_values =
     \<lparr>id_arg = DEFAULT, created_at_arg = DEFAULT, updated_at_arg = DEFAULT,
      orders_customer_id_arg = DEFAULT, orders_fabric_id_arg = DEFAULT,
      orders_garment_id_arg = DEFAULT, orders_tracking_id_arg = DEFAULT,
      orders_customizations_json_arg = DEFAULT, orders_measurements_json_arg = DEFAULT,
      orders_price_arg = DEFAULT, orders_status_arg = DEFAULT, orders_urgent_arg = DEFAULT,
      orders_special_instructions_arg = DEFAULT, orders_estimated_completion_arg = DEFAULT\<rparr>"

text \<open>The first sample row of the script's \<open>INSERT INTO fabrics\<close> (without its image list).\<close>

definition premium_silk :: fabrics_insert where
  "premium_silk =
     \<lparr>id_arg = DEFAULT, created_at_arg = DEFAULT, updated_at_arg = DEFAULT,
      fabrics_name_arg = Value (Some ''Premium Silk''),
      fabrics_material_arg = Value (Some ''Silk''),
      fabrics_price_per_meter_arg = Value (Some (Numeric 2500 0)),
      fabrics_color_arg = Value (Some ''Golden''),
      fabrics_stock_arg = Value (Some 50),
      fabrics_images_json_arg = DEFAULT,
      fabrics_featured_arg = Value (Some True),
      fabrics_description_arg =
        Value (Some ''Luxurious silk fabric perfect for wedding wear and special occasions'')\<rparr>"

text \<open>The first sample row of the script's \<open>INSERT INTO garments\<close> (without its option
  catalogue).\<close>

definition classic_shirt :: garments_insert where
  "classic_shirt =
     \<lparr>id_arg = DEFAULT, created_at_arg = DEFAULT, updated_at_arg = DEFAULT,
      garments_name_arg = Value (Some ''Classic Shirt''),
      garments_category_arg = Value (Some ''Shirts''),
      garments_base_price_arg = Value (Some (Numeric 1500 0)),
      garments_description_arg =
        Value (Some ''Timeless classic shirt perfect for office and casual wear''),
      garments_image_url_arg =
        Value (Some ''https://images.pexels.com/photos/996329/pexels-photo-996329.jpeg''),
      garments_customization_options_arg = DEFAULT\<rparr>"

definition a_customer :: customers_insert where
  "a_customer =
     \<lparr>id_arg = DEFAULT, created_at_arg = DEFAULT, updated_at_arg = DEFAULT,
      customers_name_arg = Value (Some ''A Customer''),
      customers_phone_arg = Value (Some ''0000000000''),
      customers_email_arg = Value (Some ''customer@example.com''),
      customers_measurements_json_arg = DEFAULT\<rparr>"

subsection \<open>The tracking code as the specification words it\<close>

text \<open>
  The specification's tracking code: the prefix \<open>RT\<close> followed by the epoch time in
  whole seconds, zero-padded to 10 digits.
\<close>

definition zero_padded :: "nat \<Rightarrow> nat \<Rightarrow> string" where
  "zero_padded width n = replicate (width - length (nat_text n)) CHR ''0'' @ nat_text n"

definition spec_tracking_code :: "timestamptz \<Rightarrow> string" where
  "spec_tracking_code now = ''RT'' @ zero_padded 10 (nat (now div 1000000))"

subsection \<open>Row-level security\<close>

text \<open>
  Row-level security is enabled on the four tables, so a caller that is not the table
  owner reaches a row only through a policy.  A policy names its table, its command
  (\<open>FOR SELECT\<close>, ..., \<open>FOR ALL\<close>), the roles it is granted \<open>TO\<close>, and its \<open>USING\<close> and
  \<open>WITH CHECK\<close> expressions, either of which may be absent.  The caller is the database
  role of the request together with the two values the expressions read: \<open>auth.uid()\<close> and
  \<open>auth.jwt() ->> 'role'\<close>, both \<open>NULL\<close> when the request carries none.
\<close>

datatype table_name = Customers | Fabrics | Garments | Orders

datatype command = ForSelect | ForInsert | ForUpdate | ForDelete | ForAll

datatype pg_role = anon | authenticated

record caller =
  caller_role :: pg_role
  auth_uid :: "uuid option"
  auth_jwt_role :: "string option"

datatype any_row =
    CustomersRow customers_row
  | FabricsRow fabrics_row
  | GarmentsRow garments_row
  | OrdersRow orders_row

fun table_of :: "any_row \<Rightarrow> table_name" where
  "table_of (CustomersRow r) = Customers"
| "table_of (FabricsRow r) = Fabrics"
| "table_of (GarmentsRow r) = Garments"
| "table_of (OrdersRow r) = Orders"

type_synonym expr = "caller \<Rightarrow> any_row \<Rightarrow> bool option"

record policy =
  policy_name :: string
  policy_table :: table_name
  policy_command :: command
  policy_roles :: "pg_role list"
  policy_using :: "expr option"
  policy_with_check :: "expr option"

text \<open>SQL equality: \<open>NULL\<close> when either side is \<open>NULL\<close>.\<close>

definition sql_eq :: "'a option \<Rightarrow> 'a option \<Rightarrow> bool option" where
  "sql_eq a b = (case a of None \<Rightarrow> None | Some x \<Rightarrow> (case b of None \<Rightarrow> None | Some y \<Rightarrow> Some (x = y)))"

text \<open>The four expressions the policies use.\<close>

definition expr_true :: expr where
  "expr_true c r = Some True"

definition expr_uid_is_id :: expr where
  "expr_uid_is_id c r = (case r of CustomersRow x \<Rightarrow> sql_eq (auth_uid c) (row_id x) | _ \<Rightarrow> None)"

definition expr_role_is_admin :: expr where
  "expr_role_is_admin c r = sql_eq (auth_jwt_role c) (Some ''admin'')"

definition expr_customer_id_is_uid :: expr where
  "expr_customer_id_is_uid c r =
     (case r of OrdersRow x \<Rightarrow> sql_eq (orders_customer_id x) (auth_uid c) | _ \<Rightarrow> None)"

text \<open>The eleven \<open>CREATE POLICY\<close> statements, in the order of the script, as they are written.\<close>

definition policy_statements :: "policy list" where
  "policy_statements =
     [\<lparr>policy_name = ''Anyone can insert customer data'', policy_table = Customers,
       policy_command = ForInsert, policy_roles = [anon, authenticated],
       policy_using = None, policy_with_check = Some expr_true\<rparr>,
      \<lparr>policy_name = ''Customers can view their own data'', policy_table = Customers,
       policy_command = ForSelect, policy_roles = [authenticated],
       policy_using = Some expr_uid_is_id, policy_with_check = None\<rparr>,
      \<lparr>policy_name = ''Admins can view all customers'', policy_table = Customers,
       policy_command = ForAll, policy_roles = [authenticated],
       policy_using = Some expr_role_is_admin, policy_with_check = None\<rparr>,
      \<lparr>policy_name = ''Anyone can view fabrics'', policy_table = Fabrics,
       policy_command = ForSelect, policy_roles = [anon, authenticated],
       policy_using = None, policy_with_check = Some expr_true\<rparr>,
      \<lparr>policy_name = ''Admins can manage fabrics'', policy_table = Fabrics,
       policy_command = ForAll, policy_roles = [authenticated],
       policy_using = Some expr_role_is_admin, policy_with_check = None\<rparr>,
      \<lparr>policy_name = ''Anyone can view garments'', policy_table = Garments,
       policy_command = ForSelect, policy_roles = [anon, authenticated],
       policy_using = None, policy_with_check = Some expr_true\<rparr>,
      \<lparr>policy_name = ''Admins can manage garments'', policy_table = Garments,
       policy_command = ForAll, policy_roles = [authenticated],
       policy_using = Some expr_role_is_admin, policy_with_check = None\<rparr>,
      \<lparr>policy_name = ''Anyone can track orders by tracking_id'', policy_table = Orders,
       policy_command = ForSelect, policy_roles = [anon, authenticated],
       policy_using = None, policy_with_check = Some expr_true\<rparr>,
      \<lparr>policy_name = ''Customers can create orders'', policy_table = Orders,
       policy_command = ForInsert, policy_roles = [anon, authenticated],
       policy_using = None, policy_with_check = Some expr_true\<rparr>,
      \<lparr>policy_name = ''Customers can view their own orders'', policy_table = Orders,
       policy_command = ForSelect, policy_roles = [authenticated],
       policy_using = Some expr_customer_id_is_uid, policy_with_check = None\<rparr>,
      \<lparr>policy_name = ''Admins can manage all orders'', policy_table = Orders,
       policy_command = ForAll, policy_roles = [authenticated],
       policy_using = Some expr_role_is_admin, policy_with_check = None\<rparr>]"

text \<open>
  \<open>CREATE POLICY\<close> rejects two shapes of statement.  A \<open>SELECT\<close> or \<open>DELETE\<close> policy cannot
  have a \<open>WITH CHECK\<close> expression, since there is no new row to check (the statement fails
  with "WITH CHECK cannot be applied to SELECT or DELETE"); an \<open>INSERT\<close> policy cannot have
  a \<open>USING\<close> expression ("only WITH CHECK expression allowed for INSERT").  A rejected
  statement creates nothing.
\<close>

datatype policy_error = with_check_on_select_or_delete | using_on_insert

definition create_policy :: "policy \<Rightarrow> policy list \<Rightarrow> policy_error + policy list" where
  "create_policy p installed =
     (if (policy_command p = ForSelect \<or> policy_command p = ForDelete) \<and> policy_with_check p \<noteq> None
      then Inl with_check_on_select_or_delete
      else if policy_command p = ForInsert \<and> policy_using p \<noteq> None
      then Inl using_on_insert
      else Inr (installed @ [p]))"

fun create_policies :: "policy list \<Rightarrow> policy list \<Rightarrow> policy list" where
  "create_policies [] installed = installed"
| "create_policies (p # ps) installed =
     (case create_policy p installed of
        Inl e \<Rightarrow> create_policies ps installed
      | Inr installed' \<Rightarrow> create_policies ps installed')"

definition installed_policies :: "policy list" where
  "installed_policies = create_policies policy_statements []"

text \<open>
  All policies are permissive.  A policy applies to a request when it is on the request's
  table, its command is the request's command or \<open>ALL\<close>, and the caller's role is among
  its roles.  An existing row passes when the \<open>USING\<close> expression of some applicable policy
  is true on it (\<open>NULL\<close> is not true; a policy with no \<open>USING\<close> expression passes no row).
  A new row passes when the \<open>WITH CHECK\<close> expression of some applicable policy is true on
  it, the \<open>USING\<close> expression standing in where a policy has no \<open>WITH CHECK\<close>.  With no
  applicable policy nothing passes.
\<close>

definition applies :: "policy \<Rightarrow> caller \<Rightarrow> table_name \<Rightarrow> command \<Rightarrow> bool" where
  "applies p c t cmd =
     (policy_table p = t \<and> (policy_command p = cmd \<or> policy_command p = ForAll) \<and>
      caller_role c \<in> set (policy_roles p))"

definition is_true :: "expr option \<Rightarrow> caller \<Rightarrow> any_row \<Rightarrow> bool" where
  "is_true e c r = (case e of None \<Rightarrow> False | Some f \<Rightarrow> f c r = Some True)"

definition using_passes :: "policy list \<Rightarrow> caller \<Rightarrow> command \<Rightarrow> any_row \<Rightarrow> bool" where
  "using_passes ps c cmd r =
     list_ex (\<lambda>p. applies p c (table_of r) cmd \<and> is_true (policy_using p) c r) ps"

definition with_check_passes :: "policy list \<Rightarrow> caller \<Rightarrow> command \<Rightarrow> any_row \<Rightarrow> bool" where
  "with_check_passes ps c cmd r =
     list_ex (\<lambda>p. applies p c (table_of r) cmd \<and>
                  is_true (if policy_with_check p = None then policy_using p
                           else policy_with_check p) c r) ps"

text \<open>
  A request reads a row, inserts a new row, replaces an old row by a new one, or deletes
  a row.
\<close>

datatype request =
    Select any_row
  | Insert any_row
  | Update any_row any_row
  | Delete any_row

fun authorized :: "policy list \<Rightarrow> caller \<Rightarrow> request \<Rightarrow> bool" where
  "authorized ps c (Select r) = using_passes ps c ForSelect r"
| "authorized ps c (Insert r) = with_check_passes ps c ForInsert r"
| "authorized ps c (Update old new) =
     (using_passes ps c ForUpdate old \<and> with_check_passes ps c ForUpdate new)"
| "authorized ps c (Delete r) = using_passes ps c ForDelete r"

subsection \<open>The access rule table as the specification words it\<close>

text \<open>
  The specification's three caller classes and its rule table: an anonymous caller may
  insert a customer and an order and read any fabric, garment or order, and nothing else;
  an authenticated caller who is not an administrator may in addition read the customer
  row that is their own and the orders whose customer reference is their identity; an
  administrator may perform every operation on every table.
\<close>

datatype caller_class = Anonymous | EndUser | Administrator

definition class_of :: "caller \<Rightarrow> caller_class" where
  "class_of c =
     (if caller_role c = anon then Anonymous
      else if auth_jwt_role c = Some ''admin'' then Administrator
      else EndUser)"

fun spec_anonymous_may :: "request \<Rightarrow> bool" where
  "spec_anonymous_may (Insert r) = (table_of r = Customers \<or> table_of r = Orders)"
| "spec_anonymous_may (Select r) =
     (table_of r = Fabrics \<or> table_of r = Garments \<or> table_of r = Orders)"
| "spec_anonymous_may (Update old new) = False"
| "spec_anonymous_may (Delete r) = False"

fun spec_own_row :: "caller \<Rightarrow> request \<Rightarrow> bool" where
  "spec_own_row c (Select (CustomersRow r)) = (auth_uid c \<noteq> None \<and> row_id r = auth_uid c)"
| "spec_own_row c (Select (OrdersRow r)) = (auth_uid c \<noteq> None \<and> orders_customer_id r = auth_uid c)"
| "spec_own_row c req = False"

definition spec_authorized :: "caller \<Rightarrow> request \<Rightarrow> bool" where
  "spec_authorized c req =
     (case class_of c of
        Anonymous \<Rightarrow> spec_anonymous_may req
      | EndUser \<Rightarrow> spec_anonymous_may req \<or> spec_own_row c req
      | Administrator \<Rightarrow> True)"

text \<open>
  For comparison, the script with the \<open>WITH CHECK\<close> clause of each \<open>SELECT\<close> policy read as
  the \<open>USING\<close> clause its name describes.  This is not what the script says; it serves only
  to show how far the rule table is from the policies as installed.
\<close>

definition read_as_using :: "policy \<Rightarrow> policy" where
  "read_as_using p =
     (if policy_command p = ForSelect \<and> policy_using p = None
      then p\<lparr>policy_using := policy_with_check p, policy_with_check := None\<rparr>
      else p)"

definition policies_read_as_using :: "policy list" where
  "policies_read_as_using = create_policies (map read_as_using policy_statements) []"

text \<open>A request with no credentials, and the rows of the small shop it may ask for.\<close>

definition anonymous_caller :: caller where
  "anonymous_caller = \<lparr>caller_role = anon, auth_uid = None, auth_jwt_role = None\<rparr>"

subsection \<open>The list screens\<close>

text \<open>
  Modelled from the spec: the interfaces \<open>Fabric\<close> and \<open>Garment\<close> are declared in the
  module \<open>types\<close>, which is not among the sources.  Their fields are the attributes the
  specification's data model lists for a fabric and a garment, with the names the screens
  read them by; text fields are strings and the featured flag is a boolean, as the screens
  use them (\<open>fabric.name.toLowerCase()\<close>, \<open>!f.featured\<close>).  The functions below are written
  over the extensible records, so they hold whatever further fields a row carries.
\<close>

record Fabric =
  fabric_id :: string
  fabric_name :: string
  fabric_material :: string
  fabric_price_per_meter :: int
  fabric_color :: string
  fabric_stock :: int
  fabric_images_json :: "string list"
  fabric_featured :: bool
  fabric_description :: string








text \<open>
  \<open>toggleFeatured\<close> of the admin fabrics screen, as a function of the fetched collection
  and of the \<open>error\<close> field of the remote update's response (\<open>None\<close> when the update went
  through).  It returns the collection the screen holds afterwards: unchanged when no
  fabric has the id, or when the remote update failed.
\<close>

definition AdminFabrics_toggleFeatured ::
    "string option \<Rightarrow> 'a Fabric_scheme list \<Rightarrow> string \<Rightarrow> 'a Fabric_scheme list" where
  "AdminFabrics_toggleFeatured update_error fabrics fabricId =
     (case find (\<lambda>f. fabric_id f = fabricId) fabrics of
        None \<Rightarrow> fabrics
      | Some fabric \<Rightarrow>
          (case update_error of
             Some e \<Rightarrow> fabrics
           | None \<Rightarrow>
               map (\<lambda>f. if fabric_id f = fabricId
                        then f\<lparr>fabric_featured := \<not> fabric_featured f\<rparr>
                        else f) fabrics))"

subsection \<open>The list filter as the specification words it\<close>







subsection \<open>Properties of tables used in the statements below\<close>

text \<open>
  The constraints of \<open>orders\<close> as a property of the whole table: the \<open>NOT NULL\<close> columns are
  not \<open>NULL\<close>, the \<open>CHECK\<close> holds in every row, and \<open>id\<close> and \<open>tracking_id\<close> are each unique.
\<close>

definition orders_constraints_hold :: "db \<Rightarrow> bool" where
  "orders_constraints_hold d =
     (list_all (\<lambda>r. row_id r \<noteq> None \<and> orders_tracking_id r \<noteq> None \<and> orders_price r \<noteq> None \<and>
                     orders_status_check r) (all_orders d) \<and>
      distinct (map row_id (all_orders d)) \<and>
      distinct (map orders_tracking_id (all_orders d)))"

text \<open>
  \<open>stamped now u before after\<close>: the table \<open>after\<close> is the table \<open>before\<close> row for row, except
  that a row whose \<open>id\<close> was \<open>u\<close> now has \<open>updated_at = now\<close>.
\<close>

definition stamped :: "timestamptz \<Rightarrow> uuid \<Rightarrow> 'a row_scheme list \<Rightarrow> 'a row_scheme list \<Rightarrow> bool" where
  "stamped now u before after =
     list_all2 (\<lambda>old new. if has_id u old then updated_at new = Some now else new = old)
       before after"

subsection \<open>Some \<open>SET\<close> clauses\<close>

text \<open>
  \<open>SET status = v\<close>, \<open>SET tracking_id = v\<close>, \<open>SET updated_at = v\<close> and \<open>SET featured = v\<close>
  (the last is the remote update \<open>toggleFeatured\<close> issues).
\<close>

definition set_status :: "string option \<Rightarrow> orders_row \<Rightarrow> orders_row" where
  "set_status v OLD = OLD\<lparr>orders_status := v\<rparr>"

definition set_tracking :: "string option \<Rightarrow> orders_row \<Rightarrow> orders_row" where
  "set_tracking v OLD = OLD\<lparr>orders_tracking_id := v\<rparr>"

definition set_updated_at :: "timestamptz option \<Rightarrow> 'a row_scheme \<Rightarrow> 'a row_scheme" where
  "set_updated_at v OLD = OLD\<lparr>updated_at := v\<rparr>"

definition set_featured :: "bool option \<Rightarrow> fabrics_row \<Rightarrow> fabrics_row" where
  "set_featured v OLD = OLD\<lparr>fabrics_featured := v\<rparr>"

text \<open>
  A small shop: a customer, the first sample fabric and garment, and one order that
  references the three (the identifiers 11, 12, 13 and 14 are the generated ones).
\<close>

definition an_order :: orders_insert where
  "an_order =
     orders_default_values\<lparr>orders_customer_id_arg := Value (Some 11),
                           orders_fabric_id_arg := Value (Some 12),
                           orders_garment_id_arg := Value (Some 13)\<rparr>"

definition small_shop :: "(timestamptz \<times> uuid \<times> statement) list" where
  "small_shop =
     [(1700000000000000, 11, InsertCustomers a_customer),
      (1700000001000000, 12, InsertFabrics premium_silk),
      (1700000002000000, 13, InsertGarments classic_shirt),
      (1700000003000000, 14, InsertOrders an_order)]"

section \<open>Evaluation and basic facts\<close>

lemma replicate_numeral_Cons:
  "replicate (numeral k) x = x # replicate (pred_numeral k) x"
  by (simp add: numeral_eq_Suc)

lemmas eval_defs = replicate_numeral_Cons nat_text.simps digit_char_def lpad_def numeric_text_def extract_epoch_def
  insert_orders_def orders_defaults_def set_tracking_id_def column_value_def
  orders_violation_def orders_fk_violation_def orders_status_check_def check_satisfied_def
  sql_in_def order_statuses_def fk_violated_def empty_db_def Let_def
  update_updated_at_column_def has_id_def

lemma length_nat_text:
  "10 ^ k \<le> n \<Longrightarrow> n < 10 ^ Suc k \<Longrightarrow> length (nat_text n) = Suc k"
proof (induction k arbitrary: n)
  case 0
  then show ?case by (simp add: nat_text.simps)
next
  case (Suc k)
  have "(10::nat) \<le> 10 ^ Suc k" by simp
  with Suc.prems have ge: "10 \<le> n" by linarith
  have "10 ^ k \<le> n div 10"
    using Suc.prems by (simp add: less_eq_div_iff_mult_less_eq)
  moreover have "n div 10 < 10 ^ Suc k"
    using Suc.prems by (simp add: less_mult_imp_div_less mult.commute)
  ultimately have "length (nat_text (n div 10)) = Suc k" by (rule Suc.IH)
  with ge show ?case by (subst nat_text.simps) simp
qed

lemma length_nat_text_ge:
  "10 ^ k \<le> n \<Longrightarrow> Suc k \<le> length (nat_text n)"
proof (induction k arbitrary: n)
  case 0
  then show ?case by (subst nat_text.simps) simp
next
  case (Suc k)
  have "(10::nat) \<le> 10 ^ Suc k" by simp
  with Suc.prems have ge: "10 \<le> n" by linarith
  have "10 ^ k \<le> n div 10"
    using Suc.prems by (simp add: less_eq_div_iff_mult_less_eq)
  then have "Suc k \<le> length (nat_text (n div 10))" by (rule Suc.IH)
  with ge show ?case by (subst nat_text.simps) simp
qed

lemma insert_orders_Inr:
  assumes "insert_orders now g ins d = Inr d'"
  shows "d' = d\<lparr>all_orders := all_orders d @ [set_tracking_id now (orders_defaults now g ins)]\<rparr>"
    and "orders_violation (all_orders d) (set_tracking_id now (orders_defaults now g ins)) = None"
    and "orders_fk_violation d (True, True, True) (set_tracking_id now (orders_defaults now g ins)) = None"
  using assms by (auto simp: insert_orders_def Let_def split: option.splits)

lemma epoch_text:
  assumes "0 \<le> now"
  shows "numeric_text (extract_epoch now) =
         nat_text (nat (now div 1000000)) @
         (''.'' @ lpad (nat_text (nat now mod 10 ^ 6)) (int 6) ''0'')"
proof -
  have "nat \<bar>now\<bar> div 10 ^ 6 = nat (now div 1000000)"
    using assms by (simp add: nat_div_distrib)
  then show ?thesis
    unfolding numeric_text_def extract_epoch_def Let_def numeric.sel
    using assms by simp
qed

lemma generated_tracking_id:
  assumes "1000000000 \<le> now div 1000000" and "now div 1000000 < 10000000000"
  shows "''RT'' @ lpad (numeric_text (extract_epoch now)) 10 ''0'' = spec_tracking_code now"
proof -
  define s where "s = nat (now div 1000000)"
  have nonneg: "0 \<le> now" using assms(1) by linarith
  have "10 ^ 9 \<le> s" and "s < 10 ^ Suc 9"
    using assms by (simp_all add: s_def)
  then have len: "length (nat_text s) = 10"
    using length_nat_text [of 9 s] by simp
  have "lpad (numeric_text (extract_epoch now)) 10 ''0'' = nat_text s"
    using len by (simp add: epoch_text [OF nonneg] lpad_def s_def [symmetric])
  moreover have "zero_padded 10 s = nat_text s"
    using len by (simp add: zero_padded_def)
  ultimately show ?thesis
    by (simp add: spec_tracking_code_def s_def)
qed

section \<open>Tracking code on insert\<close>

text \<open>
  C1 (as amended).  When an insert of an order succeeds, the table is the old table with
  one row appended.  If the caller supplied no tracking code, \<open>NULL\<close> or the empty string,
  and the current epoch time has ten integer digits (from 1000000000 up to, but not
  including, 10000000000 seconds), the stored tracking code is \<open>RT\<close> followed by the epoch
  time in whole seconds.  A non-empty tracking code supplied by the caller is stored
  unchanged.
\<close>

theorem tracking_id_on_insert:
  assumes "insert_orders now g ins d = Inr d'"
  shows "all_orders d' = all_orders d @ [last (all_orders d')] \<and>
         (orders_tracking_id_arg ins \<in> {DEFAULT, Value None, Value (Some [])} \<and>
          1000000000 \<le> now div 1000000 \<and> now div 1000000 < 10000000000 \<longrightarrow>
            orders_tracking_id (last (all_orders d')) = Some (spec_tracking_code now)) \<and>
         (\<forall>t. orders_tracking_id_arg ins = Value (Some t) \<and> t \<noteq> [] \<longrightarrow>
            orders_tracking_id (last (all_orders d')) = Some t)"
proof -
  note d' = insert_orders_Inr(1) [OF assms]
  have 1: "all_orders d' = all_orders d @ [last (all_orders d')]"
    by (simp add: d')
  have 3: "orders_tracking_id (last (all_orders d')) = Some t"
    if "orders_tracking_id_arg ins = Value (Some t)" and "t \<noteq> []" for t
    using that by (simp add: d' set_tracking_id_def orders_defaults_def column_value_def)
  have 2: "orders_tracking_id (last (all_orders d')) = Some (spec_tracking_code now)"
    if "orders_tracking_id_arg ins \<in> {DEFAULT, Value None, Value (Some [])}"
      and "1000000000 \<le> now div 1000000" and "now div 1000000 < 10000000000"
  proof -
    have "orders_tracking_id (orders_defaults now g ins) = None \<or>
          orders_tracking_id (orders_defaults now g ins) = Some []"
      using that(1) by (auto simp: orders_defaults_def column_value_def)
    then have "orders_tracking_id (last (all_orders d')) =
               Some (''RT'' @ lpad (numeric_text (extract_epoch now)) 10 ''0'')"
      by (auto simp: d' set_tracking_id_def)
    then show ?thesis
      using generated_tracking_id [OF that(2,3)] by simp
  qed
  from 1 2 3 show ?thesis by blast
qed

text \<open>
  The specification's example, an insert with no tracking code at epoch time 1700000000,
  and an insert that supplies the code \<open>ABC\<close>.
\<close>

theorem tracking_id_on_insert_witness:
  "stored_tracking_ids (insert_orders 1700000000000000 7 orders_default_values empty_db)
     = Inr [Some ''RT1700000000''] \<and>
   stored_tracking_ids
     (insert_orders 1700000000000000 7
        (orders_default_values\<lparr>orders_tracking_id_arg := Value (Some ''ABC'')\<rparr>) empty_db)
     = Inr [Some ''ABC'']"
proof -
  define ins where "ins = orders_default_values\<lparr>orders_tracking_id_arg := Value (Some ''ABC'')\<rparr>"
  obtain d1 where d1: "insert_orders 1700000000000000 7 orders_default_values empty_db = Inr d1"
    by (simp add: eval_defs orders_default_values_def)
  obtain d2 where d2: "insert_orders 1700000000000000 7 ins empty_db = Inr d2"
    by (simp add: eval_defs orders_default_values_def ins_def)
  have code: "spec_tracking_code 1700000000000000 = ''RT1700000000''"
    by (simp add: spec_tracking_code_def zero_padded_def nat_text.simps digit_char_def)
  have "all_orders d1 = [last (all_orders d1)]"
    and "orders_tracking_id (last (all_orders d1)) = Some ''RT1700000000''"
    using tracking_id_on_insert [OF d1] code
    by (simp_all add: orders_default_values_def empty_db_def)
  then have 1: "map orders_tracking_id (all_orders d1) = [Some ''RT1700000000'']"
    by (metis list.simps(8,9))
  have "all_orders d2 = [last (all_orders d2)]"
    and "orders_tracking_id (last (all_orders d2)) = Some ''ABC''"
    using tracking_id_on_insert [OF d2]
    by (simp_all add: orders_default_values_def empty_db_def ins_def)
  then have 2: "map orders_tracking_id (all_orders d2) = [Some ''ABC'']"
    by (metis list.simps(8,9))
  show ?thesis
    using 1 2 by (simp add: stored_tracking_ids_def d1 d2 ins_def [symmetric])
qed

text \<open>
  C1 fails as stated.  Half a second before the epoch time reaches ten digits
  (999999999.5 seconds: 2001-09-09 01:46:39.5 UTC) the text of the epoch time is
  \<open>999999999.500000\<close>, and \<open>lpad\<close> cuts it to its first ten characters: the stored code
  is \<open>RT999999999.\<close>, where the specification's code is \<open>RT0999999999\<close>.
\<close>

theorem tracking_id_on_insert_counterexample:
  "stored_tracking_ids (insert_orders 999999999500000 7 orders_default_values empty_db)
     = Inr [Some ''RT999999999.''] \<and>
   spec_tracking_code 999999999500000 = ''RT0999999999''"
  by (simp add: eval_defs stored_tracking_ids_def orders_default_values_def
      spec_tracking_code_def zero_padded_def)

text \<open>
  The same happens once the epoch time has eleven digits (10000000000 seconds, in the
  year 2286): the stored code keeps the first ten digits only.
\<close>

lemma tracking_id_eleven_digits:
  "stored_tracking_ids (insert_orders 10000000000000000 7 orders_default_values empty_db)
     = Inr [Some ''RT1000000000''] \<and>
   spec_tracking_code 10000000000000000 = ''RT10000000000''"
  by (simp add: eval_defs stored_tracking_ids_def orders_default_values_def
      spec_tracking_code_def zero_padded_def)

section \<open>Default status\<close>

text \<open>
  C9.  When an insert of an order that supplies no status succeeds, the row it appends
  to the table has the status \<open>confirmed\<close>.
\<close>

theorem status_default_on_insert:
  assumes "insert_orders now g ins d = Inr d'" and "orders_status_arg ins = DEFAULT"
  shows "all_orders d' = all_orders d @ [last (all_orders d')] \<and>
         orders_status (last (all_orders d')) = Some ''confirmed''"
  using assms(2)
  by (simp add: insert_orders_Inr(1) [OF assms(1)] set_tracking_id_def orders_defaults_def
      column_value_def)

theorem status_default_on_insert_witness:
  "stored_statuses (insert_orders 1700000000000000 7 orders_default_values empty_db)
     = Inr [Some ''confirmed'']"
proof -
  obtain d1 where d1: "insert_orders 1700000000000000 7 orders_default_values empty_db = Inr d1"
    by (simp add: eval_defs orders_default_values_def)
  have "all_orders d1 = [last (all_orders d1)]"
    and "orders_status (last (all_orders d1)) = Some ''confirmed''"
    using status_default_on_insert [OF d1]
    by (simp_all add: orders_default_values_def empty_db_def)
  then have "map orders_status (all_orders d1) = [Some ''confirmed'']"
    by (metis list.simps(8,9))
  then show ?thesis
    by (simp add: stored_statuses_def d1)
qed

section \<open>What each statement does to the table of orders\<close>

lemma find_has_id:
  "find (has_id u) xs = Some OLD \<Longrightarrow> OLD \<in> set xs \<and> has_id u OLD"
  by (induction xs) (auto split: if_splits)

lemma find_has_id_ex:
  "list_ex (has_id u) xs \<Longrightarrow> \<exists>OLD. find (has_id u) xs = Some OLD"
  by (induction xs) auto

lemma orders_violation_None:
  "orders_violation others NEW = None \<longleftrightarrow>
     row_id NEW \<noteq> None \<and> orders_tracking_id NEW \<noteq> None \<and> orders_price NEW \<noteq> None \<and>
     orders_status_check NEW \<and> row_id NEW \<notin> set (map row_id others) \<and>
     orders_tracking_id NEW \<notin> set (map orders_tracking_id others)"
  by (simp add: orders_violation_def)

lemma update_orders_Inr:
  assumes "update_orders now u f d = Inr d'" and "find (has_id u) (all_orders d) = Some OLD"
  shows "d' = d\<lparr>all_orders := map (\<lambda>r. if has_id u r then update_updated_at_column now (f OLD)
                                        else r) (all_orders d)\<rparr>"
    and "orders_violation (filter (\<lambda>r. \<not> has_id u r) (all_orders d))
           (update_updated_at_column now (f OLD)) = None"
  using assms by (auto simp: update_orders_def Let_def split: option.splits)

lemma update_orders_no_row:
  "find (has_id u) (all_orders d) = None \<Longrightarrow> update_orders now u f d = Inr d"
  by (simp add: update_orders_def)

lemma other_tables_keep_orders:
  "insert_customers now g ci d = Inr d' \<Longrightarrow> all_orders d' = all_orders d"
  "insert_fabrics now g fi d = Inr d' \<Longrightarrow> all_orders d' = all_orders d"
  "insert_garments now g gi d = Inr d' \<Longrightarrow> all_orders d' = all_orders d"
  "update_customers now u cf d = Inr d' \<Longrightarrow> all_orders d' = all_orders d"
  "update_fabrics now u ff d = Inr d' \<Longrightarrow> all_orders d' = all_orders d"
  "update_garments now u gf d = Inr d' \<Longrightarrow> all_orders d' = all_orders d"
  "delete_fabrics u d = Inr d' \<Longrightarrow> all_orders d' = all_orders d"
  "delete_garments u d = Inr d' \<Longrightarrow> all_orders d' = all_orders d"
  by (auto simp: insert_customers_def insert_fabrics_def insert_garments_def
      update_customers_def update_fabrics_def update_garments_def
      delete_fabrics_def delete_garments_def Let_def split: option.splits if_splits)

lemma deletes_filter_orders:
  "delete_customers u d = Inr d' \<Longrightarrow>
     all_orders d' = all_orders d \<or>
     all_orders d' = filter (\<lambda>r. orders_customer_id r \<noteq> Some u) (all_orders d)"
  "delete_orders u d = Inr d' \<Longrightarrow> all_orders d' = filter (\<lambda>r. \<not> has_id u r) (all_orders d)"
  by (auto simp: delete_customers_def delete_orders_def split: if_splits)

section \<open>The constraints of orders hold in every reachable database\<close>

lemma only_row_with_id:
  assumes "distinct (map row_id (x # xs))" and "has_id u x"
  shows "filter (\<lambda>r. \<not> has_id u r) xs = xs"
    and "map (\<lambda>r. if has_id u r then NEW else r) xs = xs"
proof -
  have "\<not> has_id u r" if "r \<in> set xs" for r
    using assms that by (force simp: has_id_def)
  then show "filter (\<lambda>r. \<not> has_id u r) xs = xs"
    and "map (\<lambda>r. if has_id u r then NEW else r) xs = xs"
    by (simp_all add: map_idI)
qed

lemma replace_distinct:
  assumes "distinct (map row_id xs)" and "distinct (map k xs)"
    and "k NEW \<notin> set (map k (filter (\<lambda>r. \<not> has_id u r) xs))"
  shows "distinct (map k (map (\<lambda>r. if has_id u r then NEW else r) xs))"
  using assms
proof (induction xs)
  case Nil
  then show ?case by simp
next
  case (Cons x xs)
  show ?case
  proof (cases "has_id u x")
    case True
    note only = only_row_with_id [OF Cons.prems(1) True]
    from Cons.prems(3) True have "k NEW \<notin> set (map k xs)"
      by (simp add: only(1))
    with Cons.prems(2) True show ?thesis
      by (simp add: only(2))
  next
    case False
    from Cons.prems False have IH: "distinct (map k (map (\<lambda>r. if has_id u r then NEW else r) xs))"
      by (intro Cons.IH) auto
    from Cons.prems(3) False have ne: "k x \<noteq> k NEW"
      by auto
    from Cons.prems(2) have "k x \<notin> k ` set xs"
      by auto
    then have "k x \<noteq> k (if has_id u r then NEW else r)" if "r \<in> set xs" for r
      using that ne by (cases "has_id u r") auto
    then have "k x \<notin> set (map k (map (\<lambda>r. if has_id u r then NEW else r) xs))"
      by force
    with IH False show ?thesis by simp
  qed
qed

lemma insert_orders_preserves:
  assumes "orders_constraints_hold d" and "insert_orders now g ins d = Inr d'"
  shows "orders_constraints_hold d'"
  using assms(1) insert_orders_Inr(2) [OF assms(2)]
  by (simp add: insert_orders_Inr(1) [OF assms(2)] orders_constraints_hold_def
      orders_violation_None)

lemma update_orders_preserves:
  assumes "orders_constraints_hold d" and "update_orders now u f d = Inr d'"
  shows "orders_constraints_hold d'"
proof (cases "find (has_id u) (all_orders d)")
  case None
  with assms show ?thesis by (simp add: update_orders_no_row)
next
  case (Some OLD)
  define NEW where "NEW = update_updated_at_column now (f OLD)"
  note d' = update_orders_Inr(1) [OF assms(2) Some, folded NEW_def]
  note ok = update_orders_Inr(2) [OF assms(2) Some, folded NEW_def, unfolded orders_violation_None]
  have "list_all (\<lambda>r. row_id r \<noteq> None \<and> orders_tracking_id r \<noteq> None \<and> orders_price r \<noteq> None \<and>
                      orders_status_check r)
          (map (\<lambda>r. if has_id u r then NEW else r) (all_orders d))"
    using assms(1) ok by (auto simp: orders_constraints_hold_def list_all_iff)
  moreover have "distinct (map row_id (map (\<lambda>r. if has_id u r then NEW else r) (all_orders d)))"
    using assms(1) ok by (intro replace_distinct) (simp_all add: orders_constraints_hold_def)
  moreover have "distinct (map orders_tracking_id
                   (map (\<lambda>r. if has_id u r then NEW else r) (all_orders d)))"
    using assms(1) ok by (intro replace_distinct) (simp_all add: orders_constraints_hold_def)
  ultimately show ?thesis
    by (simp add: d' orders_constraints_hold_def)
qed

lemma filter_orders_preserves:
  assumes "orders_constraints_hold d" and "all_orders d' = filter P (all_orders d)"
  shows "orders_constraints_hold d'"
  using assms by (auto simp: orders_constraints_hold_def list_all_iff distinct_map_filter)

lemma same_orders_preserves:
  assumes "orders_constraints_hold d" and "all_orders d' = all_orders d"
  shows "orders_constraints_hold d'"
  using assms by (simp add: orders_constraints_hold_def)

lemma execute_preserves:
  assumes "orders_constraints_hold d" and "execute now g stmt d = Inr d'"
  shows "orders_constraints_hold d'"
proof (cases stmt)
  case (InsertOrders ins)
  with assms show ?thesis by (auto intro: insert_orders_preserves)
next
  case (UpdateOrders u f)
  with assms show ?thesis by (auto intro: update_orders_preserves)
next
  case (DeleteCustomers u)
  with assms(2) have "all_orders d' = all_orders d \<or>
      all_orders d' = filter (\<lambda>r. orders_customer_id r \<noteq> Some u) (all_orders d)"
    by (simp add: deletes_filter_orders(1))
  with assms(1) show ?thesis
    by (auto intro: filter_orders_preserves same_orders_preserves)
next
  case (DeleteOrders u)
  with assms(2) have "all_orders d' = filter (\<lambda>r. \<not> has_id u r) (all_orders d)"
    by (simp add: deletes_filter_orders(2))
  with assms(1) show ?thesis
    by (rule filter_orders_preserves)
qed (use assms in \<open>auto intro: same_orders_preserves dest: other_tables_keep_orders\<close>)

lemma reachable_constraints:
  "reachable d \<Longrightarrow> orders_constraints_hold d"
proof (induction rule: reachable.induct)
  case reachable_empty
  show ?case by (simp add: orders_constraints_hold_def empty_db_def)
next
  case (reachable_step d now g stmt d')
  then show ?case by (auto intro: execute_preserves)
qed

lemma run_reachable:
  "reachable d \<Longrightarrow> run script d = Inr d' \<Longrightarrow> reachable d'"
proof (induction script arbitrary: d)
  case Nil
  then show ?case by simp
next
  case (Cons s script)
  obtain now g stmt where s: "s = (now, g, stmt)" by (cases s) auto
  from Cons.prems(2) obtain d1 where d1: "execute now g stmt d = Inr d1" and rest: "run script d1 = Inr d'"
    by (auto simp: s split: sum.splits)
  from Cons.prems(1) d1 have "reachable d1" by (rule reachable_step)
  then show ?case using rest by (rule Cons.IH)
qed

section \<open>Order status\<close>

lemma orders_status_check_iff:
  "orders_status_check r \<longleftrightarrow> orders_status r = None \<or> orders_status r \<in> Some ` set order_statuses"
  by (cases "orders_status r") (auto simp: orders_status_check_def check_satisfied_def sql_in_def)

lemma update_status_accepted:
  assumes "orders_constraints_hold d" and "find (has_id u) (all_orders d) = Some OLD"
  shows "update_orders now u (set_status v) d =
           (if v = None \<or> v \<in> Some ` set order_statuses
            then Inr (d\<lparr>all_orders :=
                         map (\<lambda>r. if has_id u r
                                  then update_updated_at_column now (set_status v OLD) else r)
                           (all_orders d)\<rparr>)
            else Inl (check_violation ''orders_status_check''))"
proof -
  define NEW where "NEW = update_updated_at_column now (set_status v OLD)"
  note OLD = find_has_id [OF assms(2)]
  from assms(1) OLD have old_ok: "row_id OLD \<noteq> None" "orders_tracking_id OLD \<noteq> None"
      "orders_price OLD \<noteq> None"
    by (auto simp: orders_constraints_hold_def list_all_iff)
  have id: "row_id NEW \<notin> set (map row_id (filter (\<lambda>r. \<not> has_id u r) (all_orders d)))"
    using OLD by (auto simp: NEW_def update_updated_at_column_def set_status_def has_id_def)
  have "inj_on orders_tracking_id (set (all_orders d))"
    using assms(1) by (simp add: orders_constraints_hold_def distinct_map)
  then have other: "orders_tracking_id r \<noteq> orders_tracking_id OLD"
    if "r \<in> set (all_orders d)" and "\<not> has_id u r" for r
    using that OLD by (auto dest: inj_onD)
  have same: "orders_tracking_id NEW = orders_tracking_id OLD"
    by (simp add: NEW_def update_updated_at_column_def set_status_def)
  have tr: "orders_tracking_id NEW \<notin>
      set (map orders_tracking_id (filter (\<lambda>r. \<not> has_id u r) (all_orders d)))"
  proof
    assume "orders_tracking_id NEW \<in>
      set (map orders_tracking_id (filter (\<lambda>r. \<not> has_id u r) (all_orders d)))"
    then obtain r where "r \<in> set (all_orders d)" and "\<not> has_id u r"
      and "orders_tracking_id r = orders_tracking_id NEW"
      by auto
    with other [of r] same show False by simp
  qed
  have st: "orders_status_check NEW \<longleftrightarrow> v = None \<or> v \<in> Some ` set order_statuses"
    by (simp add: orders_status_check_iff NEW_def update_updated_at_column_def set_status_def)
  have fields: "row_id NEW \<noteq> None" "orders_tracking_id NEW \<noteq> None" "orders_price NEW \<noteq> None"
    using old_ok by (simp_all add: NEW_def update_updated_at_column_def set_status_def)
  have viol: "orders_violation (filter (\<lambda>r. \<not> has_id u r) (all_orders d)) NEW =
      (if v = None \<or> v \<in> Some ` set order_statuses then None
       else Some (check_violation ''orders_status_check''))"
    using fields id tr st by (auto simp: orders_violation_def)
  have fk: "orders_fk_violation d
              (orders_customer_id NEW \<noteq> orders_customer_id OLD,
               orders_fabric_id NEW \<noteq> orders_fabric_id OLD,
               orders_garment_id NEW \<noteq> orders_garment_id OLD) NEW = None"
    by (simp add: orders_fk_violation_def NEW_def update_updated_at_column_def set_status_def)
  show ?thesis
    using viol fk by (simp add: update_orders_def assms(2) Let_def NEW_def [symmetric])
qed

text \<open>
  C2 (as amended).  In a reachable database every order's status is \<open>NULL\<close> or one of the
  eight enumerated strings.  For an order that exists, the statement
  \<open>UPDATE orders SET status = v WHERE id = u\<close> succeeds if and only if \<open>v\<close> is \<open>NULL\<close> or one
  of the eight strings, and when it succeeds the order's status is \<open>v\<close>.  An insert
  succeeds only if the status it proposes is \<open>NULL\<close> or one of the eight strings.
\<close>

theorem status_write_accepted_iff:
  assumes "reachable d" and "list_ex (has_id u) (all_orders d)"
  shows "list_all (\<lambda>r. orders_status r = None \<or> orders_status r \<in> Some ` set order_statuses)
           (all_orders d) \<and>
         ((\<exists>d'. update_orders now u (set_status v) d = Inr d') \<longleftrightarrow>
            (v = None \<or> v \<in> Some ` set order_statuses)) \<and>
         (\<forall>d'. update_orders now u (set_status v) d = Inr d' \<longrightarrow>
            list_all (\<lambda>r. has_id u r \<longrightarrow> orders_status r = v) (all_orders d')) \<and>
         (\<forall>g ins d'. insert_orders now g ins d = Inr d' \<longrightarrow>
            column_value (Some ''confirmed'') (orders_status_arg ins)
              \<in> insert None (Some ` set order_statuses))"
proof -
  note inv = reachable_constraints [OF assms(1)]
  obtain OLD where OLD: "find (has_id u) (all_orders d) = Some OLD"
    using find_has_id_ex [OF assms(2)] by blast
  note upd = update_status_accepted [OF inv OLD, of now v]
  have 1: "list_all (\<lambda>r. orders_status r = None \<or> orders_status r \<in> Some ` set order_statuses)
             (all_orders d)"
    using inv by (auto simp: orders_constraints_hold_def list_all_iff orders_status_check_iff)
  have 2: "(\<exists>d'. update_orders now u (set_status v) d = Inr d') \<longleftrightarrow>
             (v = None \<or> v \<in> Some ` set order_statuses)"
    by (simp add: upd)
  have 3: "list_all (\<lambda>r. has_id u r \<longrightarrow> orders_status r = v) (all_orders d')"
    if "update_orders now u (set_status v) d = Inr d'" for d'
    using that
    by (auto simp: upd list_all_iff update_updated_at_column_def set_status_def
        split: if_splits)
  have 4: "column_value (Some ''confirmed'') (orders_status_arg ins)
             \<in> insert None (Some ` set order_statuses)"
    if "insert_orders now g ins d = Inr d'" for g ins d'
  proof -
    have "orders_status_check (set_tracking_id now (orders_defaults now g ins))"
      using insert_orders_Inr(2) [OF that] by (simp add: orders_violation_None)
    then show ?thesis
      by (auto simp: orders_status_check_iff set_tracking_id_def orders_defaults_def
          split: if_splits)
  qed
  from 1 2 3 4 show ?thesis by blast
qed

text \<open>
  One order is inserted; setting its status to \<open>ready\<close> or to \<open>NULL\<close> succeeds, setting it
  to \<open>shipped\<close> does not.
\<close>

theorem status_write_accepted_iff_witness:
  "\<exists>d. run [(1700000000000000, 7, InsertOrders orders_default_values)] empty_db = Inr d \<and>
       reachable d \<and> list_ex (has_id 7) (all_orders d) \<and>
       (\<exists>d'. update_orders 1700000000000001 7 (set_status (Some ''ready'')) d = Inr d') \<and>
       (\<exists>d'. update_orders 1700000000000001 7 (set_status None) d = Inr d') \<and>
       (\<nexists>d'. update_orders 1700000000000001 7 (set_status (Some ''shipped'')) d = Inr d')"
proof -
  obtain d where d: "run [(1700000000000000, 7, InsertOrders orders_default_values)] empty_db = Inr d"
    and ex: "list_ex (has_id 7) (all_orders d)"
    by (simp add: eval_defs orders_default_values_def)
  have r: "reachable d"
    using reachable_empty d by (rule run_reachable)
  have "\<exists>d'. update_orders 1700000000000001 7 (set_status (Some ''ready'')) d = Inr d'"
    using status_write_accepted_iff [OF r ex, of 1700000000000001 "Some ''ready''"]
    by (simp add: order_statuses_def)
  moreover have "\<exists>d'. update_orders 1700000000000001 7 (set_status None) d = Inr d'"
    using status_write_accepted_iff [OF r ex, of 1700000000000001 None]
    by simp
  moreover have "\<nexists>d'. update_orders 1700000000000001 7 (set_status (Some ''shipped'')) d = Inr d'"
    using status_write_accepted_iff [OF r ex, of 1700000000000001 "Some ''shipped''"]
    by (simp add: order_statuses_def)
  ultimately show ?thesis
    using d r ex by blast
qed

text \<open>
  C2 fails as stated.  \<open>NULL\<close> is not one of the eight strings, yet a write of \<open>NULL\<close>
  succeeds and the row stores it: the column has no \<open>NOT NULL\<close>, and a \<open>CHECK\<close> whose
  expression is \<open>NULL\<close> is satisfied.  Both an insert with \<open>status = NULL\<close> and an update
  \<open>SET status = NULL\<close> of an order inserted with the default status leave an order whose
  status is \<open>NULL\<close>.
\<close>

theorem status_write_counterexample:
  "stored_statuses
     (insert_orders 1700000000000000 7
        (orders_default_values\<lparr>orders_status_arg := Value None\<rparr>) empty_db) = Inr [None] \<and>
   stored_statuses
     (run [(1700000000000000, 7, InsertOrders orders_default_values),
           (1700000000000001, 8, UpdateOrders 7 (set_status None))] empty_db) = Inr [None]"
  by (simp add: eval_defs stored_statuses_def orders_default_values_def update_orders_def
      set_status_def)

section \<open>Tracking codes in reachable databases\<close>

lemma set_tracking_id_nonempty:
  "orders_tracking_id (set_tracking_id now NEW) \<noteq> None \<and>
   orders_tracking_id (set_tracking_id now NEW) \<noteq> Some []"
  by (simp add: set_tracking_id_def)

lemma step_orders:
  assumes "execute now g stmt d = Inr d'" and "r \<in> set (all_orders d')"
  shows "r \<in> set (all_orders d) \<or>
         (\<exists>ins. stmt = InsertOrders ins \<and> r = last (all_orders d') \<and>
                orders_tracking_id r \<noteq> Some []) \<or>
         (\<exists>u f OLD. stmt = UpdateOrders u f \<and> OLD \<in> set (all_orders d) \<and> has_id u OLD \<and>
                    orders_tracking_id r = orders_tracking_id (f OLD))"
proof (cases stmt)
  case (InsertOrders ins)
  with assms(1) have ins: "insert_orders now g ins d = Inr d'" by simp
  show ?thesis
    using assms(2) InsertOrders set_tracking_id_nonempty [of now "orders_defaults now g ins"]
    by (auto simp: insert_orders_Inr(1) [OF ins])
next
  case (UpdateOrders u f)
  with assms(1) have upd: "update_orders now u f d = Inr d'" by simp
  show ?thesis
  proof (cases "find (has_id u) (all_orders d)")
    case None
    with upd assms(2) show ?thesis by (simp add: update_orders_no_row)
  next
    case (Some OLD)
    have "orders_tracking_id (update_updated_at_column now (f OLD)) = orders_tracking_id (f OLD)"
      by (simp add: update_updated_at_column_def)
    with assms(2) find_has_id [OF Some] UpdateOrders show ?thesis
      by (auto simp: update_orders_Inr(1) [OF upd Some] split: if_splits)
  qed
next
  case (DeleteCustomers u)
  with assms show ?thesis by (auto dest: deletes_filter_orders(1))
next
  case (DeleteOrders u)
  with assms show ?thesis by (auto dest: deletes_filter_orders(2))
qed (use assms in \<open>auto dest: other_tables_keep_orders\<close>)

text \<open>
  C5 (as amended).  In every reachable database every order's tracking code is not
  \<open>NULL\<close> and no two orders share a tracking code.  No statement regenerates a tracking
  code: after a successful statement every order is either a row that was there before,
  unchanged, or the row just inserted, whose tracking code is not empty, or the row an
  \<open>UPDATE\<close> of orders replaced, whose tracking code is the one that update's \<open>SET\<close> clause
  gave it.
\<close>

theorem tracking_id_invariant:
  assumes "reachable d" and "execute now g stmt d = Inr d'" and "r \<in> set (all_orders d')"
  shows "list_all (\<lambda>x. orders_tracking_id x \<noteq> None) (all_orders d) \<and>
         distinct (map orders_tracking_id (all_orders d)) \<and>
         list_all (\<lambda>x. orders_tracking_id x \<noteq> None) (all_orders d') \<and>
         distinct (map orders_tracking_id (all_orders d')) \<and>
         (r \<in> set (all_orders d) \<or>
          (\<exists>ins. stmt = InsertOrders ins \<and> r = last (all_orders d') \<and>
                 orders_tracking_id r \<noteq> Some []) \<or>
          (\<exists>u f OLD. stmt = UpdateOrders u f \<and> OLD \<in> set (all_orders d) \<and> has_id u OLD \<and>
                     orders_tracking_id r = orders_tracking_id (f OLD)))"
proof -
  have "reachable d'"
    using assms(1,2) by (rule reachable_step)
  then have "orders_constraints_hold d'" and "orders_constraints_hold d"
    using assms(1) by (simp_all add: reachable_constraints)
  then have "list_all (\<lambda>x. orders_tracking_id x \<noteq> None) (all_orders d)"
    and "distinct (map orders_tracking_id (all_orders d))"
    and "list_all (\<lambda>x. orders_tracking_id x \<noteq> None) (all_orders d')"
    and "distinct (map orders_tracking_id (all_orders d'))"
    by (simp_all add: orders_constraints_hold_def list_all_iff)
  with step_orders [OF assms(2,3)] show ?thesis by blast
qed

text \<open>
  One order is inserted at epoch time 1700000000 and its status is then set to \<open>ready\<close>:
  the tracking code is \<open>RT1700000000\<close> before and after.
\<close>

theorem tracking_id_invariant_witness:
  "\<exists>d d'. run [(1700000000000000, 7, InsertOrders orders_default_values)] empty_db = Inr d \<and>
          execute 1700000000000001 8 (UpdateOrders 7 (set_status (Some ''ready''))) d = Inr d' \<and>
          hd (all_orders d') \<in> set (all_orders d') \<and>
          map orders_tracking_id (all_orders d) = [Some ''RT1700000000''] \<and>
          map orders_tracking_id (all_orders d') = [Some ''RT1700000000''] \<and>
          distinct (map orders_tracking_id (all_orders d'))"
proof -
  obtain d where d: "run [(1700000000000000, 7, InsertOrders orders_default_values)] empty_db = Inr d"
    and td: "map orders_tracking_id (all_orders d) = [Some ''RT1700000000'']"
    by (simp add: eval_defs orders_default_values_def)
  have "\<exists>d'. execute 1700000000000001 8 (UpdateOrders 7 (set_status (Some ''ready''))) d = Inr d' \<and>
             map orders_tracking_id (all_orders d') = [Some ''RT1700000000'']"
    using d by (auto simp: eval_defs orders_default_values_def update_orders_def set_status_def)
  then obtain d' where d': "execute 1700000000000001 8 (UpdateOrders 7 (set_status (Some ''ready''))) d = Inr d'"
    and td': "map orders_tracking_id (all_orders d') = [Some ''RT1700000000'']"
    by (elim exE conjE)
  have r: "reachable d"
    using reachable_empty d by (rule run_reachable)
  have mem: "hd (all_orders d') \<in> set (all_orders d')"
    using td' by (cases "all_orders d'") auto
  have dist: "distinct (map orders_tracking_id (all_orders d'))"
    using tracking_id_invariant [OF r d' mem] by simp
  show ?thesis
    by (rule exI [of _ d], rule exI [of _ d']) (intro conjI d d' mem td td' dist)
qed

text \<open>
  C5 fails as stated.  An order is inserted at epoch time 1700000000 and gets the code
  \<open>RT1700000000\<close>; the statement \<open>UPDATE orders SET tracking_id = '' WHERE id = 7\<close> then
  succeeds, since no trigger and no constraint guards the column on update.  The
  database reached holds an order whose tracking code is empty, and the code assigned at
  insert has been changed.
\<close>

theorem tracking_id_counterexample:
  "stored_tracking_ids
     (run [(1700000000000000, 7, InsertOrders orders_default_values)] empty_db)
     = Inr [Some ''RT1700000000''] \<and>
   stored_tracking_ids
     (run [(1700000000000000, 7, InsertOrders orders_default_values),
           (1700000000000001, 8, UpdateOrders 7 (set_tracking (Some [])))] empty_db)
     = Inr [Some []]"
  by (simp add: eval_defs stored_tracking_ids_def orders_default_values_def update_orders_def
      set_tracking_def)

section \<open>Two inserts within one second\<close>

lemma take_ten_point:
  assumes "9 \<le> length a"
  shows "take 10 (a @ CHR ''.'' # x) = take 10 (a @ ''.'')"
proof (cases "length a = 9")
  case True
  then show ?thesis by simp
next
  case False
  with assms have "10 \<le> length a" by simp
  then show ?thesis by simp
qed

lemma generated_code_same_second:
  assumes "100000000 \<le> now div 1000000"
  shows "lpad (numeric_text (extract_epoch now)) 10 ''0'' =
         take 10 (nat_text (nat (now div 1000000)) @ ''.'')"
proof -
  define s where "s = nat (now div 1000000)"
  have nonneg: "0 \<le> now" using assms by linarith
  have "10 ^ 8 \<le> s"
    using assms by (simp add: s_def)
  then have len: "9 \<le> length (nat_text s)"
    using length_nat_text_ge [of 8 s] by simp
  then have "10 \<le> length (numeric_text (extract_epoch now))"
    by (simp add: epoch_text [OF nonneg] s_def [symmetric])
  then have "lpad (numeric_text (extract_epoch now)) 10 ''0'' =
             take 10 (numeric_text (extract_epoch now))"
    by (simp add: lpad_def)
  also have "\<dots> = take 10 (nat_text s @ ''.'')"
    using take_ten_point [OF len] by (simp add: epoch_text [OF nonneg] s_def [symmetric])
  finally show ?thesis
    by (simp add: s_def)
qed

lemma no_code_supplied:
  assumes "orders_tracking_id_arg ins \<in> {DEFAULT, Value None, Value (Some [])}"
  shows "orders_tracking_id (set_tracking_id now (orders_defaults now g ins)) =
         Some (''RT'' @ lpad (numeric_text (extract_epoch now)) 10 ''0'')"
proof -
  have "orders_tracking_id (orders_defaults now g ins) = None \<or>
        orders_tracking_id (orders_defaults now g ins) = Some []"
    using assms by (auto simp: orders_defaults_def column_value_def)
  then show ?thesis
    by (auto simp: set_tracking_id_def)
qed

text \<open>
  C7 (as amended).  Two orders are inserted, the second into the database the first
  insert left, neither with a tracking code supplied (omitted, \<open>NULL\<close> or empty), at two
  times within the same whole second, the epoch time being at least 100000000 seconds
  (from 1973-03-03).  Then the second insert derives the tracking code the first order
  stores, and it fails, so the database stays as the first insert left it.  The failure is
  the violation of the unique constraint on \<open>tracking_id\<close> whenever the second row passes
  the checks made before it (\<open>id\<close> and \<open>price\<close> not \<open>NULL\<close>, the status \<open>CHECK\<close>, and the
  primary key).
\<close>

theorem same_second_collision:
  assumes "insert_orders t1 g1 ins1 d = Inr d1"
    and "orders_tracking_id_arg ins1 \<in> {DEFAULT, Value None, Value (Some [])}"
    and "orders_tracking_id_arg ins2 \<in> {DEFAULT, Value None, Value (Some [])}"
    and "t1 div 1000000 = t2 div 1000000"
    and "100000000 \<le> t1 div 1000000"
  shows "orders_tracking_id (set_tracking_id t2 (orders_defaults t2 g2 ins2)) =
           orders_tracking_id (last (all_orders d1)) \<and>
         (\<exists>e. insert_orders t2 g2 ins2 d1 = Inl e) \<and>
         (row_id (orders_defaults t2 g2 ins2) \<noteq> None \<and>
          orders_price (orders_defaults t2 g2 ins2) \<noteq> None \<and>
          orders_status_check (orders_defaults t2 g2 ins2) \<and>
          row_id (orders_defaults t2 g2 ins2) \<notin> set (map row_id (all_orders d1)) \<longrightarrow>
            insert_orders t2 g2 ins2 d1 = Inl (unique_violation ''orders_tracking_id_key''))"
proof -
  define NEW1 where "NEW1 = set_tracking_id t1 (orders_defaults t1 g1 ins1)"
  define NEW2 where "NEW2 = set_tracking_id t2 (orders_defaults t2 g2 ins2)"
  note d1 = insert_orders_Inr(1) [OF assms(1), folded NEW1_def]
  have "lpad (numeric_text (extract_epoch t1)) 10 ''0'' =
        lpad (numeric_text (extract_epoch t2)) 10 ''0''"
    using assms(4,5) by (simp add: generated_code_same_second)
  then have same: "orders_tracking_id NEW2 = orders_tracking_id NEW1"
    by (simp add: NEW1_def NEW2_def no_code_supplied [OF assms(2)] no_code_supplied [OF assms(3)])
  then have 1: "orders_tracking_id NEW2 = orders_tracking_id (last (all_orders d1))"
    by (simp add: d1)
  have dup: "orders_tracking_id NEW2 \<in> set (map orders_tracking_id (all_orders d1))"
    by (simp add: d1 same)
  then have "orders_violation (all_orders d1) NEW2 \<noteq> None"
    by (simp add: orders_violation_None)
  then have 2: "\<exists>e. insert_orders t2 g2 ins2 d1 = Inl e"
    by (auto simp: insert_orders_def NEW2_def [symmetric])
  have 3: "insert_orders t2 g2 ins2 d1 = Inl (unique_violation ''orders_tracking_id_key'')"
    if "row_id (orders_defaults t2 g2 ins2) \<noteq> None"
      and "orders_price (orders_defaults t2 g2 ins2) \<noteq> None"
      and "orders_status_check (orders_defaults t2 g2 ins2)"
      and "row_id (orders_defaults t2 g2 ins2) \<notin> set (map row_id (all_orders d1))"
  proof -
    have "row_id NEW2 = row_id (orders_defaults t2 g2 ins2)"
      and "orders_price NEW2 = orders_price (orders_defaults t2 g2 ins2)"
      and "orders_status_check NEW2 = orders_status_check (orders_defaults t2 g2 ins2)"
      and "orders_tracking_id NEW2 \<noteq> None"
      by (simp_all add: NEW2_def set_tracking_id_def orders_status_check_def)
    with that dup
    have "orders_violation (all_orders d1) NEW2 = Some (unique_violation ''orders_tracking_id_key'')"
      by (auto simp: orders_violation_def)
    then show ?thesis
      by (simp add: insert_orders_def NEW2_def [symmetric])
  qed
  from 1 2 3 show ?thesis
    unfolding NEW2_def by blast
qed

text \<open>
  Two inserts with no column supplied, at 1700000000.000000 and 1700000000.999999
  seconds: the second fails on the unique constraint of \<open>tracking_id\<close>.
\<close>

theorem same_second_collision_witness:
  "\<exists>d1. insert_orders 1700000000000000 7 orders_default_values empty_db = Inr d1 \<and>
        insert_orders 1700000000999999 8 orders_default_values d1 =
          Inl (unique_violation ''orders_tracking_id_key'')"
proof -
  obtain d1 where d1: "insert_orders 1700000000000000 7 orders_default_values empty_db = Inr d1"
    and ids: "map row_id (all_orders d1) = [Some 7]"
    by (simp add: eval_defs orders_default_values_def)
  have arg: "orders_tracking_id_arg orders_default_values \<in> {DEFAULT, Value None, Value (Some [])}"
    by (simp add: orders_default_values_def)
  have sec: "(1700000000000000::int) div 1000000 = 1700000000999999 div 1000000"
    and big: "(100000000::int) \<le> 1700000000000000 div 1000000"
    by simp_all
  have "row_id (orders_defaults 1700000000999999 8 orders_default_values) \<noteq> None"
    and "orders_price (orders_defaults 1700000000999999 8 orders_default_values) \<noteq> None"
    and "orders_status_check (orders_defaults 1700000000999999 8 orders_default_values)"
    and "row_id (orders_defaults 1700000000999999 8 orders_default_values)
           \<notin> set (map row_id (all_orders d1))"
    by (simp_all add: ids orders_defaults_def orders_default_values_def column_value_def
        orders_status_check_def check_satisfied_def sql_in_def order_statuses_def)
  with same_second_collision [OF d1 arg arg sec big, of 8]
  have "insert_orders 1700000000999999 8 orders_default_values d1 =
          Inl (unique_violation ''orders_tracking_id_key'')"
    by blast
  with d1 show ?thesis by (intro exI [of _ d1] conjI)
qed

text \<open>
  C7 fails as stated.  At 5.000001 and 5.000002 seconds after the epoch, two times within
  the same whole second, the text of the epoch time is short enough for \<open>lpad\<close> to keep
  the microseconds: the two inserts derive \<open>RT005.000001\<close> and \<open>RT005.000002\<close>, and both
  succeed.
\<close>

theorem same_second_counterexample:
  "stored_tracking_ids
     (run [(5000001, 7, InsertOrders orders_default_values),
           (5000002, 8, InsertOrders orders_default_values)] empty_db)
     = Inr [Some ''RT005.000001'', Some ''RT005.000002'']"
  by (simp add: eval_defs stored_tracking_ids_def orders_default_values_def)

section \<open>The updated_at column\<close>

lemma find_has_id_None:
  "find (has_id u) xs = None \<Longrightarrow> r \<in> set xs \<Longrightarrow> \<not> has_id u r"
  by (induction xs) (auto split: if_splits)

lemma stamped_same:
  "find (has_id u) xs = None \<Longrightarrow> stamped now u xs xs"
  by (auto simp: stamped_def list_all2_same dest: find_has_id_None)

lemma stamped_map:
  "updated_at NEW = Some now \<Longrightarrow>
   stamped now u xs (map (\<lambda>r. if has_id u r then NEW else r) xs)"
  by (induction xs) (simp_all add: stamped_def)

lemma stamp_sets:
  "updated_at (update_updated_at_column now NEW) = Some now"
  by (simp add: update_updated_at_column_def)

lemma update_customers_stamped:
  "update_customers now u f d = Inr d' \<Longrightarrow> stamped now u (all_customers d) (all_customers d')"
  by (cases "find (has_id u) (all_customers d)")
     (auto simp: update_customers_def Let_def stamped_same stamped_map stamp_sets
           split: option.splits if_splits)

lemma update_fabrics_stamped:
  "update_fabrics now u f d = Inr d' \<Longrightarrow> stamped now u (all_fabrics d) (all_fabrics d')"
  by (cases "find (has_id u) (all_fabrics d)")
     (auto simp: update_fabrics_def Let_def stamped_same stamped_map stamp_sets
           split: option.splits if_splits)

lemma update_garments_stamped:
  "update_garments now u f d = Inr d' \<Longrightarrow> stamped now u (all_garments d) (all_garments d')"
  by (cases "find (has_id u) (all_garments d)")
     (auto simp: update_garments_def Let_def stamped_same stamped_map stamp_sets
           split: option.splits if_splits)

lemma update_orders_stamped:
  "update_orders now u f d = Inr d' \<Longrightarrow> stamped now u (all_orders d) (all_orders d')"
  by (cases "find (has_id u) (all_orders d)")
     (auto simp: update_orders_def Let_def stamped_same stamped_map stamp_sets
           split: option.splits if_splits)

text \<open>
  C4 (as amended).  For each of the four tables, after a successful
  \<open>UPDATE t SET ... WHERE id = u\<close> run at time \<open>now\<close>, whatever the \<open>SET\<close> clause assigns
  (to \<open>updated_at\<close> or to any other column), the row whose \<open>id\<close> was \<open>u\<close> has
  \<open>updated_at = now\<close> and every other row of the table is unchanged.  The stored value
  is therefore later than the value it replaces exactly when that value was earlier than
  \<open>now\<close>.
\<close>

theorem updated_at_overwritten:
  "(update_customers now u cf d = Inr dc \<longrightarrow> stamped now u (all_customers d) (all_customers dc)) \<and>
   (update_fabrics now u ff d = Inr df \<longrightarrow> stamped now u (all_fabrics d) (all_fabrics df)) \<and>
   (update_garments now u gf d = Inr dg \<longrightarrow> stamped now u (all_garments d) (all_garments dg)) \<and>
   (update_orders now u orf d = Inr dor \<longrightarrow> stamped now u (all_orders d) (all_orders dor))"
  by (simp add: update_customers_stamped update_fabrics_stamped update_garments_stamped
      update_orders_stamped)

text \<open>
  In the small shop, each of the four rows is updated at 1700000009.000000 seconds by a
  statement that assigns \<open>updated_at = 5\<close>: the four updates succeed and each row stores
  the time of the update.
\<close>

theorem updated_at_overwritten_witness:
  "\<exists>d dc df dg dor.
     run small_shop empty_db = Inr d \<and>
     update_customers 1700000009000000 11 (set_updated_at (Some 5)) d = Inr dc \<and>
     update_fabrics 1700000009000000 12 (set_updated_at (Some 5)) d = Inr df \<and>
     update_garments 1700000009000000 13 (set_updated_at (Some 5)) d = Inr dg \<and>
     update_orders 1700000009000000 14 (set_updated_at (Some 5)) d = Inr dor \<and>
     stamped 1700000009000000 11 (all_customers d) (all_customers dc) \<and>
     stamped 1700000009000000 12 (all_fabrics d) (all_fabrics df) \<and>
     stamped 1700000009000000 13 (all_garments d) (all_garments dg) \<and>
     stamped 1700000009000000 14 (all_orders d) (all_orders dor) \<and>
     map updated_at (all_customers dc) = [Some 1700000009000000] \<and>
     map updated_at (all_fabrics df) = [Some 1700000009000000] \<and>
     map updated_at (all_garments dg) = [Some 1700000009000000] \<and>
     map updated_at (all_orders dor) = [Some 1700000009000000]"
proof -
  obtain d where d: "run small_shop empty_db = Inr d"
    by (simp add: small_shop_def eval_defs insert_customers_def insert_fabrics_def
        insert_garments_def customers_defaults_def fabrics_defaults_def garments_defaults_def
        customers_violation_def fabrics_violation_def garments_violation_def
        a_customer_def premium_silk_def classic_shirt_def an_order_def orders_default_values_def)
  have "\<exists>dc. update_customers 1700000009000000 11 (set_updated_at (Some 5)) d = Inr dc \<and>
             map updated_at (all_customers dc) = [Some 1700000009000000]"
    using d
    by (auto simp: small_shop_def eval_defs insert_customers_def insert_fabrics_def
        insert_garments_def customers_defaults_def fabrics_defaults_def garments_defaults_def
        customers_violation_def fabrics_violation_def garments_violation_def
        a_customer_def premium_silk_def classic_shirt_def an_order_def orders_default_values_def
        update_customers_def set_updated_at_def)
  then obtain dc where dc: "update_customers 1700000009000000 11 (set_updated_at (Some 5)) d = Inr dc"
    and tc: "map updated_at (all_customers dc) = [Some 1700000009000000]"
    by (elim exE conjE)
  have "\<exists>df. update_fabrics 1700000009000000 12 (set_updated_at (Some 5)) d = Inr df \<and>
             map updated_at (all_fabrics df) = [Some 1700000009000000]"
    using d
    by (auto simp: small_shop_def eval_defs insert_customers_def insert_fabrics_def
        insert_garments_def customers_defaults_def fabrics_defaults_def garments_defaults_def
        customers_violation_def fabrics_violation_def garments_violation_def
        a_customer_def premium_silk_def classic_shirt_def an_order_def orders_default_values_def
        update_fabrics_def set_updated_at_def)
  then obtain df where df: "update_fabrics 1700000009000000 12 (set_updated_at (Some 5)) d = Inr df"
    and tf: "map updated_at (all_fabrics df) = [Some 1700000009000000]"
    by (elim exE conjE)
  have "\<exists>dg. update_garments 1700000009000000 13 (set_updated_at (Some 5)) d = Inr dg \<and>
             map updated_at (all_garments dg) = [Some 1700000009000000]"
    using d
    by (auto simp: small_shop_def eval_defs insert_customers_def insert_fabrics_def
        insert_garments_def customers_defaults_def fabrics_defaults_def garments_defaults_def
        customers_violation_def fabrics_violation_def garments_violation_def
        a_customer_def premium_silk_def classic_shirt_def an_order_def orders_default_values_def
        update_garments_def set_updated_at_def)
  then obtain dg where dg: "update_garments 1700000009000000 13 (set_updated_at (Some 5)) d = Inr dg"
    and tg: "map updated_at (all_garments dg) = [Some 1700000009000000]"
    by (elim exE conjE)
  have "\<exists>dor. update_orders 1700000009000000 14 (set_updated_at (Some 5)) d = Inr dor \<and>
             map updated_at (all_orders dor) = [Some 1700000009000000]"
    using d
    by (auto simp: small_shop_def eval_defs insert_customers_def insert_fabrics_def
        insert_garments_def customers_defaults_def fabrics_defaults_def garments_defaults_def
        customers_violation_def fabrics_violation_def garments_violation_def
        a_customer_def premium_silk_def classic_shirt_def an_order_def orders_default_values_def
        update_orders_def set_updated_at_def)
  then obtain dor where dor: "update_orders 1700000009000000 14 (set_updated_at (Some 5)) d = Inr dor"
    and tor: "map updated_at (all_orders dor) = [Some 1700000009000000]"
    by (elim exE conjE)
  have sc: "stamped 1700000009000000 11 (all_customers d) (all_customers dc)"
    using updated_at_overwritten [where d = d and dc = dc] dc by blast
  have sf: "stamped 1700000009000000 12 (all_fabrics d) (all_fabrics df)"
    using updated_at_overwritten [where d = d and df = df] df by blast
  have sg: "stamped 1700000009000000 13 (all_garments d) (all_garments dg)"
    using updated_at_overwritten [where d = d and dg = dg] dg by blast
  have sor: "stamped 1700000009000000 14 (all_orders d) (all_orders dor)"
    using updated_at_overwritten [where d = d and dor = dor] dor by blast
  show ?thesis
    by (rule exI [of _ d], rule exI [of _ dc], rule exI [of _ df], rule exI [of _ dg],
        rule exI [of _ dor])
       (intro conjI d dc df dg dor sc sf sg sor tc tf tg tor)
qed

text \<open>
  C4 fails as stated.  The first sample fabric is inserted at 1700000000 seconds with
  \<open>updated_at\<close> supplied as 1800000000 seconds (no trigger guards the column on insert);
  an update one second later succeeds and stores the time of the update, which is earlier
  than the value it replaces.  Likewise an update run at the very time of the insert
  (\<open>now()\<close> is the same for all statements of one transaction) stores the value that was
  already there.
\<close>

theorem updated_at_counterexample:
  "stored_fabrics_updated_at
     (run [(1700000000000000, 7,
            InsertFabrics (premium_silk\<lparr>updated_at_arg := Value (Some 1800000000000000)\<rparr>))]
        empty_db) = Inr [Some 1800000000000000] \<and>
   stored_fabrics_updated_at
     (run [(1700000000000000, 7,
            InsertFabrics (premium_silk\<lparr>updated_at_arg := Value (Some 1800000000000000)\<rparr>)),
           (1700000001000000, 8, UpdateFabrics 7 (set_featured (Some False)))]
        empty_db) = Inr [Some 1700000001000000] \<and>
   stored_fabrics_updated_at
     (run [(1700000000000000, 7, InsertFabrics premium_silk)] empty_db)
     = Inr [Some 1700000000000000] \<and>
   stored_fabrics_updated_at
     (run [(1700000000000000, 7, InsertFabrics premium_silk),
           (1700000000000000, 8, UpdateFabrics 7 (set_featured (Some False)))]
        empty_db) = Inr [Some 1700000000000000]"
  by (simp add: eval_defs stored_fabrics_updated_at_def insert_fabrics_def fabrics_defaults_def
      fabrics_violation_def premium_silk_def update_fabrics_def set_featured_def)

section \<open>Deleting customers, fabrics and garments\<close>

lemmas shop_defs = small_shop_def eval_defs insert_customers_def insert_fabrics_def
  insert_garments_def customers_defaults_def fabrics_defaults_def garments_defaults_def
  customers_violation_def fabrics_violation_def garments_violation_def
  a_customer_def premium_silk_def classic_shirt_def an_order_def orders_default_values_def

text \<open>
  C6 (as amended).  Deleting a customer that exists succeeds and removes exactly the
  orders whose customer reference is that customer.  Deleting a fabric or a garment that
  exists is rejected with a foreign-key violation when an order references it; when no
  order references it the delete succeeds and leaves the orders as they were.  Nothing
  cascades from a fabric or a garment.
\<close>

theorem delete_cascades_and_restricts:
  "(list_ex (has_id u) (all_customers d) \<longrightarrow>
      (\<exists>d'. delete_customers u d = Inr d' \<and>
            all_customers d' = filter (\<lambda>r. \<not> has_id u r) (all_customers d) \<and>
            all_orders d' = filter (\<lambda>r. orders_customer_id r \<noteq> Some u) (all_orders d))) \<and>
   (list_ex (has_id u) (all_fabrics d) \<longrightarrow>
      (if Some u \<in> set (map orders_fabric_id (all_orders d))
       then delete_fabrics u d = Inl (foreign_key_violation ''orders_fabric_id_fkey'')
       else \<exists>d'. delete_fabrics u d = Inr d' \<and>
                 all_fabrics d' = filter (\<lambda>r. \<not> has_id u r) (all_fabrics d) \<and>
                 all_orders d' = all_orders d)) \<and>
   (list_ex (has_id u) (all_garments d) \<longrightarrow>
      (if Some u \<in> set (map orders_garment_id (all_orders d))
       then delete_garments u d = Inl (foreign_key_violation ''orders_garment_id_fkey'')
       else \<exists>d'. delete_garments u d = Inr d' \<and>
                 all_garments d' = filter (\<lambda>r. \<not> has_id u r) (all_garments d) \<and>
                 all_orders d' = all_orders d))"
  by (simp add: delete_customers_def delete_fabrics_def delete_garments_def)

text \<open>
  In the small shop the order references the customer, the fabric and the garment.
  Deleting the fabric or the garment is rejected; deleting the customer removes the
  order, after which the fabric and the garment can be deleted.
\<close>

theorem delete_cascades_and_restricts_witness:
  "\<exists>d d1 d2 d3.
     run small_shop empty_db = Inr d \<and>
     list_ex (has_id 11) (all_customers d) \<and>
     list_ex (has_id 12) (all_fabrics d) \<and>
     list_ex (has_id 13) (all_garments d) \<and>
     map row_id (all_orders d) = [Some 14] \<and>
     delete_fabrics 12 d = Inl (foreign_key_violation ''orders_fabric_id_fkey'') \<and>
     delete_garments 13 d = Inl (foreign_key_violation ''orders_garment_id_fkey'') \<and>
     delete_customers 11 d = Inr d1 \<and> all_orders d1 = [] \<and>
     delete_fabrics 12 d1 = Inr d2 \<and> all_orders d2 = [] \<and>
     delete_garments 13 d1 = Inr d3 \<and> all_orders d3 = []"
proof -
  obtain d where d: "run small_shop empty_db = Inr d"
    and c: "list_ex (has_id 11) (all_customers d)"
    and f: "list_ex (has_id 12) (all_fabrics d)"
    and g: "list_ex (has_id 13) (all_garments d)"
    and o: "map row_id (all_orders d) = [Some 14]"
    and oc: "map orders_customer_id (all_orders d) = [Some 11]"
    and orf: "map orders_fabric_id (all_orders d) = [Some 12]"
    and og: "map orders_garment_id (all_orders d) = [Some 13]"
    by (simp add: shop_defs)
  have ff: "delete_fabrics 12 d = Inl (foreign_key_violation ''orders_fabric_id_fkey'')"
    using delete_cascades_and_restricts [of 12 d] f orf by simp
  have gg: "delete_garments 13 d = Inl (foreign_key_violation ''orders_garment_id_fkey'')"
    using delete_cascades_and_restricts [of 13 d] g og by simp
  obtain d1 where d1: "delete_customers 11 d = Inr d1"
    and o1: "all_orders d1 = filter (\<lambda>r. orders_customer_id r \<noteq> Some 11) (all_orders d)"
    using delete_cascades_and_restricts [of 11 d] c by blast
  have "\<forall>r \<in> set (all_orders d). orders_customer_id r = Some 11"
    using oc by (cases "all_orders d") auto
  then have e1: "all_orders d1 = []"
    by (simp add: o1)
  have f1: "list_ex (has_id 12) (all_fabrics d1)" and g1: "list_ex (has_id 13) (all_garments d1)"
    using d1 c f g by (auto simp: delete_customers_def)
  obtain d2 where d2: "delete_fabrics 12 d1 = Inr d2" and e2: "all_orders d2 = []"
    using delete_cascades_and_restricts [of 12 d1] f1 e1 by auto
  obtain d3 where d3: "delete_garments 13 d1 = Inr d3" and e3: "all_orders d3 = []"
    using delete_cascades_and_restricts [of 13 d1] g1 e1 by auto
  show ?thesis
    by (rule exI [of _ d], rule exI [of _ d1], rule exI [of _ d2], rule exI [of _ d3])
       (intro conjI d c f g o ff gg d1 e1 d2 e2 d3 e3)
qed

text \<open>
  C6 fails as stated.  In the small shop, where one order references the fabric and the
  garment, \<open>DELETE FROM fabrics WHERE id = 12\<close> and \<open>DELETE FROM garments WHERE id = 13\<close> do
  not succeed: each is rejected with a foreign-key violation, because \<open>fabric_id\<close> and
  \<open>garment_id\<close> are declared with \<open>REFERENCES\<close> and no \<open>ON DELETE\<close> action.
\<close>

theorem delete_fabric_counterexample:
  "run (small_shop @ [(1700000004000000, 15, DeleteFabrics 12)]) empty_db
     = Inl (foreign_key_violation ''orders_fabric_id_fkey'') \<and>
   run (small_shop @ [(1700000004000000, 15, DeleteGarments 13)]) empty_db
     = Inl (foreign_key_violation ''orders_garment_id_fkey'')"
  by (simp add: shop_defs delete_fabrics_def delete_garments_def)

section \<open>Row-level security\<close>

lemmas policy_defs = policy_statements_def create_policy_def read_as_using_def
  applies_def is_true_def using_passes_def with_check_passes_def
  expr_true_def expr_uid_is_id_def expr_role_is_admin_def expr_customer_id_is_uid_def sql_eq_def

text \<open>
  Three of the eleven statements are rejected: the three \<open>FOR SELECT\<close> policies that are
  written with \<open>WITH CHECK (true)\<close>.  Eight policies are installed.
\<close>

lemma installed_policy_names:
  "map policy_name installed_policies =
     [''Anyone can insert customer data'', ''Customers can view their own data'',
      ''Admins can view all customers'', ''Admins can manage fabrics'',
      ''Admins can manage garments'', ''Customers can create orders'',
      ''Customers can view their own orders'', ''Admins can manage all orders'']"
  by (simp add: installed_policies_def policy_statements_def create_policy_def)

lemma installed_policies_eq:
  "installed_policies =
     filter (\<lambda>p. \<not> (policy_command p = ForSelect \<and> policy_with_check p \<noteq> None)) policy_statements"
  by (simp add: installed_policies_def policy_statements_def create_policy_def)

lemma policies_read_as_using_eq:
  "policies_read_as_using = map read_as_using policy_statements"
  by (simp add: policies_read_as_using_def policy_statements_def create_policy_def
      read_as_using_def)

text \<open>
  C3, evaluated at a request the rule table allows.  An anonymous caller reads the first
  sample fabric, the first sample garment, or an order.  The rule table of the
  specification allows each of the three reads; the installed policies allow none of
  them, because no installed \<open>SELECT\<close> policy of these tables is granted to \<open>anon\<close>.
\<close>

theorem anonymous_read_denied:
  "\<not> authorized installed_policies anonymous_caller
       (Select (FabricsRow (fabrics_defaults 1700000001000000 12 premium_silk))) \<and>
   \<not> authorized installed_policies anonymous_caller
       (Select (GarmentsRow (garments_defaults 1700000002000000 13 classic_shirt))) \<and>
   \<not> authorized installed_policies anonymous_caller
       (Select (OrdersRow (orders_defaults 1700000003000000 14 an_order))) \<and>
   spec_authorized anonymous_caller
       (Select (FabricsRow (fabrics_defaults 1700000001000000 12 premium_silk))) \<and>
   spec_authorized anonymous_caller
       (Select (GarmentsRow (garments_defaults 1700000002000000 13 classic_shirt))) \<and>
   spec_authorized anonymous_caller
       (Select (OrdersRow (orders_defaults 1700000003000000 14 an_order)))"
  by (simp add: installed_policies_eq policy_defs anonymous_caller_def spec_authorized_def
      class_of_def)

text \<open>
  The three reads would be denied even if the three statements were accepted as they are
  written, since a policy without a \<open>USING\<close> expression passes no existing row.
\<close>

lemma anonymous_read_denied_as_written:
  "\<not> authorized policy_statements anonymous_caller
       (Select (FabricsRow (fabrics_defaults 1700000001000000 12 premium_silk))) \<and>
   \<not> authorized policy_statements anonymous_caller
       (Select (GarmentsRow (garments_defaults 1700000002000000 13 classic_shirt))) \<and>
   \<not> authorized policy_statements anonymous_caller
       (Select (OrdersRow (orders_defaults 1700000003000000 14 an_order)))"
  by (simp add: policy_defs anonymous_caller_def)

text \<open>
  Apart from these reads the installed policies decide as the rule table does: a request
  is authorized exactly when the rule table allows it and it is not a read of a fabric, a
  garment or an order by a caller who is neither an administrator nor the customer the
  order refers to.
\<close>

lemma installed_policies_decide:
  "authorized installed_policies c req \<longleftrightarrow>
     spec_authorized c req \<and>
     (class_of c = Administrator \<or> (class_of c = EndUser \<and> spec_own_row c req) \<or>
      (\<forall>r. req = Select r \<longrightarrow> table_of r = Customers))"
proof (cases req)
  case (Select r)
  then show ?thesis
    by (cases r; cases "caller_role c"; cases "auth_uid c"; cases "auth_jwt_role c")
       (auto simp: installed_policies_eq policy_defs spec_authorized_def class_of_def
             split: option.splits)
next
  case (Insert r)
  then show ?thesis
    by (cases r; cases "caller_role c"; cases "auth_jwt_role c")
       (auto simp: installed_policies_eq policy_defs spec_authorized_def class_of_def
             split: option.splits)
next
  case (Update old new)
  then show ?thesis
    by (cases old; cases new; cases "caller_role c"; cases "auth_jwt_role c")
       (auto simp: installed_policies_eq policy_defs spec_authorized_def class_of_def
             split: option.splits)
next
  case (Delete r)
  then show ?thesis
    by (cases r; cases "caller_role c"; cases "auth_jwt_role c")
       (auto simp: installed_policies_eq policy_defs spec_authorized_def class_of_def
             split: option.splits)
qed

text \<open>
  Had the three policies been written with \<open>USING (true)\<close>, all eleven statements would be
  accepted and the decision would be the rule table of the specification, for every
  caller and every request.
\<close>

lemma policies_read_as_using_decide:
  "authorized policies_read_as_using c req \<longleftrightarrow> spec_authorized c req"
proof (cases req)
  case (Select r)
  then show ?thesis
    by (cases r; cases "caller_role c"; cases "auth_uid c"; cases "auth_jwt_role c")
       (auto simp: policies_read_as_using_eq policy_defs spec_authorized_def class_of_def
             split: option.splits)
next
  case (Insert r)
  then show ?thesis
    by (cases r; cases "caller_role c"; cases "auth_jwt_role c")
       (auto simp: policies_read_as_using_eq policy_defs spec_authorized_def class_of_def
             split: option.splits)
next
  case (Update old new)
  then show ?thesis
    by (cases old; cases new; cases "caller_role c"; cases "auth_jwt_role c")
       (auto simp: policies_read_as_using_eq policy_defs spec_authorized_def class_of_def
             split: option.splits)
next
  case (Delete r)
  then show ?thesis
    by (cases r; cases "caller_role c"; cases "auth_jwt_role c")
       (auto simp: policies_read_as_using_eq policy_defs spec_authorized_def class_of_def
             split: option.splits)
qed

section \<open>The list filters\<close>







section \<open>The featured flag\<close>





text \<open>
  The two other paths of \<open>toggleFeatured\<close>: when the remote update reports an error, or
  when no fabric has the id, the collection is left as it was.
\<close>

lemma toggleFeatured_unchanged:
  "AdminFabrics_toggleFeatured (Some e) fabrics fabricId = fabrics"
  "find (\<lambda>f. fabric_id f = fabricId) fabrics = None \<Longrightarrow>
   AdminFabrics_toggleFeatured update_error fabrics fabricId = fabrics"
  by (simp_all add: AdminFabrics_toggleFeatured_def split: option.splits)

end
